theory Spec2Isabelle
  imports Complex_Main
begin

section \<open>Scalars and vectors\<close>

text \<open>
  The source computes in \<^verbatim>\<open>vtkm::FloatDefault\<close> (IEEE-754). A scalar is one of the four
  shapes such a value has. Signed zeros are not told apart (\<^verbatim>\<open>-0.0f == 0.0f\<close>).
  Comparison between scalars is exact in IEEE-754 and is written out below; arithmetic
  rounds, so the arithmetic primitives of vtk-m are parameters of the model
  (record \<open>vtkm_math\<close>) and nothing is assumed about them.
\<close>

datatype Scalar = NaN | NegInf | Fin real | PosInf

text \<open>The operator \<^verbatim>\<open><\<close> on floats: false whenever an operand is NaN.\<close>

fun less_s :: "Scalar \<Rightarrow> Scalar \<Rightarrow> bool" where
  "less_s NaN y = False"
| "less_s x NaN = False"
| "less_s PosInf y = False"
| "less_s x NegInf = False"
| "less_s NegInf y = True"
| "less_s x PosInf = True"
| "less_s (Fin a) (Fin b) = (a < b)"

text \<open>The operator \<^verbatim>\<open>>\<close> on floats, as \<^verbatim>\<open>val > maxVal\<close> uses it.\<close>

definition greater_s :: "Scalar \<Rightarrow> Scalar \<Rightarrow> bool" where
  "greater_s x y = less_s y x"

text \<open>The operator \<^verbatim>\<open><=\<close> on floats.\<close>

definition le_s :: "Scalar \<Rightarrow> Scalar \<Rightarrow> bool" where
  "le_s x y = (less_s x y \<or> (x = y \<and> x \<noteq> NaN))"

text \<open>\<^verbatim>\<open>vtkm::NegativeInfinity<Scalar>()\<close>.\<close>

definition NegativeInfinity :: Scalar where
  "NegativeInfinity = NegInf"

text \<open>
  \<^verbatim>\<open>vtkm::Max\<close> on floats is \<^verbatim>\<open>fmax\<close>: the larger operand, and the other operand
  when one is NaN.
\<close>

definition vtkm_Max :: "Scalar \<Rightarrow> Scalar \<Rightarrow> Scalar" where
  "vtkm_Max x y = (if x = NaN then y else if y = NaN then x else if less_s x y then y else x)"

datatype Vec3f = Vec3f Scalar Scalar Scalar

text \<open>A C array of exactly three elements, as the callers of this file pass them.\<close>

type_synonym 'a arr3 = "'a \<times> 'a \<times> 'a"

text \<open>
  The vtk-m primitives the file calls and that round: \<^verbatim>\<open>vtkm::Dot\<close>, the vector
  \<^verbatim>\<open>operator-\<close>, \<^verbatim>\<open>vtkm::Normalize\<close> and the conversion \<^verbatim>\<open>float(double)\<close>.
\<close>

record vtkm_math =
  Dot :: "Vec3f \<Rightarrow> Vec3f \<Rightarrow> Scalar"
  Minus :: "Vec3f \<Rightarrow> Vec3f \<Rightarrow> Vec3f"
  Normalize :: "Vec3f \<Rightarrow> Vec3f"
  to_float :: "Scalar \<Rightarrow> Scalar"

datatype error = AssertFailure | OutOfBounds | InvalidIndex | Thrown string

section \<open>detail::MultiPlane\<close>

text \<open>
  \<open>Points\<close> and \<open>Normals\<close> are C arrays of six vectors. \<open>ModifiedCount\<close> is the counter
  of the base class \<^verbatim>\<open>vtkm::ImplicitFunction\<close> that \<^verbatim>\<open>Modified()\<close> advances.
\<close>

record MultiPlane =
  Points :: "Vec3f list"
  Normals :: "Vec3f list"
  m_num_planes :: int
  ModifiedCount :: int

text \<open>The arrays have their declared size.\<close>

definition wf_MultiPlane :: "MultiPlane \<Rightarrow> bool" where
  "wf_MultiPlane mp = (length (Points mp) = 6 \<and> length (Normals mp) = 6)"

text \<open>
  Modelled from the spec: \<^verbatim>\<open>Modified()\<close> of the base class is not in the source tree;
  the spec describes it as an explicit version counter incremented by every setter.
\<close>

definition Modified :: "MultiPlane \<Rightarrow> MultiPlane" where
  "Modified mp = mp\<lparr>ModifiedCount := ModifiedCount mp + 1\<rparr>"

definition zero_vec :: Vec3f where
  "zero_vec = Vec3f (Fin 0) (Fin 0) (Fin 0)"

text \<open>
  \<^verbatim>\<open>MultiPlane() = default\<close>: the default member initialisers. Three elements of each
  array are given; the other three are value-initialised.
\<close>

definition MultiPlane_default :: MultiPlane where
  "MultiPlane_default =
     \<lparr>Points = [Vec3f (Fin (- 0)) (Fin 0) (Fin 0),
                Vec3f (Fin 0) (Fin 0) (Fin 0),
                Vec3f (Fin 0) (Fin (- 0)) (Fin 0),
                zero_vec, zero_vec, zero_vec],
      Normals = [Vec3f (Fin (- 1)) (Fin 0) (Fin 0),
                 Vec3f (Fin 1) (Fin 0) (Fin 0),
                 Vec3f (Fin 0) (Fin 0) (Fin 0),
                 zero_vec, zero_vec, zero_vec],
      m_num_planes = 3,
      ModifiedCount = 0\<rparr>"

text \<open>
  \<^verbatim>\<open>SetPlanes\<close>: both loops run over the indices 0, 1, 2, so the elements 0, 1 and 2
  of each argument are read and the slots 3 to 5 keep what they hold.
\<close>

definition SetPlanes :: "Vec3f arr3 \<Rightarrow> Vec3f arr3 \<Rightarrow> MultiPlane \<Rightarrow> MultiPlane" where
  "SetPlanes points normals mp =
     (case points of (p0, p1, p2) \<Rightarrow>
      case normals of (n0, n1, n2) \<Rightarrow>
        Modified (mp\<lparr>Points := (Points mp)[0 := p0, 1 := p1, 2 := p2],
                     Normals := (Normals mp)[0 := n0, 1 := n1, 2 := n2]\<rparr>))"

text \<open>The constructor \<^verbatim>\<open>MultiPlane(points, normals, num_planes)\<close>.\<close>

definition MultiPlane_init :: "Vec3f arr3 \<Rightarrow> Vec3f arr3 \<Rightarrow> int \<Rightarrow> MultiPlane" where
  "MultiPlane_init points normals num_planes =
     (SetPlanes points normals MultiPlane_default)\<lparr>m_num_planes := num_planes\<rparr>"

text \<open>
  \<^verbatim>\<open>SetPlane\<close>: \<^verbatim>\<open>VTKM_ASSERT\<close> halts the program when the index is not 0, 1 or 2
  (in a build that keeps assertions).
\<close>

definition SetPlane :: "int \<Rightarrow> Vec3f \<Rightarrow> Vec3f \<Rightarrow> MultiPlane \<Rightarrow> error + MultiPlane" where
  "SetPlane idx point normal mp =
     (if \<not> (idx \<ge> 0 \<and> idx < 3) then Inl AssertFailure
      else Inr (Modified (mp\<lparr>Points := (Points mp)[nat idx := point],
                               Normals := (Normals mp)[nat idx := normal]\<rparr>)))"

text \<open>\<^verbatim>\<open>SetNumPlanes\<close>: no check in the source, so no failing branch.\<close>

definition SetNumPlanes :: "int \<Rightarrow> MultiPlane \<Rightarrow> error + MultiPlane" where
  "SetNumPlanes num mp = Inr (Modified (mp\<lparr>m_num_planes := num\<rparr>))"

text \<open>\<^verbatim>\<open>GetPlanes\<close> fills two caller arrays of three elements.\<close>

definition GetPlanes :: "MultiPlane \<Rightarrow> Vec3f arr3 \<times> Vec3f arr3" where
  "GetPlanes mp =
     ((Points mp ! 0, Points mp ! 1, Points mp ! 2),
      (Normals mp ! 0, Normals mp ! 1, Normals mp ! 2))"

definition GetPoints :: "MultiPlane \<Rightarrow> Vec3f list" where
  "GetPoints mp = Points mp"

definition GetNormals :: "MultiPlane \<Rightarrow> Vec3f list" where
  "GetNormals mp = Normals mp"

text \<open>
  The loop of \<^verbatim>\<open>Value\<close>, from \<open>index\<close> on with the running \<open>maxVal\<close>. Reading an array
  past its end is undefined behaviour in the source and the error \<open>OutOfBounds\<close> here.
\<close>

function Value_loop :: "vtkm_math \<Rightarrow> MultiPlane \<Rightarrow> Vec3f \<Rightarrow> nat \<Rightarrow> Scalar \<Rightarrow> error + Scalar" where
  "Value_loop vm mp point index maxVal =
     (if int index < m_num_planes mp then
        (if index < length (Points mp) \<and> index < length (Normals mp) then
           (let p = Points mp ! index;
                n = Normals mp ! index;
                val = Dot vm (Minus vm point p) n
            in Value_loop vm mp point (index + 1) (vtkm_Max maxVal val))
         else Inl OutOfBounds)
      else Inr maxVal)"
  by pat_completeness auto
termination
  by (relation "measure (\<lambda>(vm, mp, point, index, maxVal). nat (m_num_planes mp - int index))") auto

definition Value :: "vtkm_math \<Rightarrow> MultiPlane \<Rightarrow> Vec3f \<Rightarrow> error + Scalar" where
  "Value vm mp point = Value_loop vm mp point 0 NegativeInfinity"

text \<open>The loop of \<^verbatim>\<open>Gradient\<close>, with the running \<open>maxVal\<close> and \<open>maxValIdx\<close>.\<close>

function Gradient_loop ::
  "vtkm_math \<Rightarrow> MultiPlane \<Rightarrow> Vec3f \<Rightarrow> nat \<Rightarrow> Scalar \<Rightarrow> nat \<Rightarrow> error + nat" where
  "Gradient_loop vm mp point index maxVal maxValIdx =
     (if int index < m_num_planes mp then
        (if index < length (Points mp) \<and> index < length (Normals mp) then
           (let p = Points mp ! index;
                n = Normals mp ! index;
                val = Dot vm (Minus vm point p) n
            in if greater_s val maxVal
               then Gradient_loop vm mp point (index + 1) val index
               else Gradient_loop vm mp point (index + 1) maxVal maxValIdx)
         else Inl OutOfBounds)
      else Inr maxValIdx)"
  by pat_completeness auto
termination
  by (relation "measure (\<lambda>(vm, mp, point, index, maxVal, maxValIdx).
         nat (m_num_planes mp - int index))") auto

definition Gradient :: "vtkm_math \<Rightarrow> MultiPlane \<Rightarrow> Vec3f \<Rightarrow> error + Vec3f" where
  "Gradient vm mp point =
     (case Gradient_loop vm mp point 0 NegativeInfinity 0 of
        Inl e \<Rightarrow> Inl e
      | Inr maxValIdx \<Rightarrow>
          if maxValIdx < length (Normals mp) then Inr (Normals mp ! maxValIdx)
          else Inl OutOfBounds)"

text \<open>The spec's \<open>d_i = dot(point - point_i, normal_i)\<close>, as the loop bodies compute it.\<close>

definition plane_d :: "vtkm_math \<Rightarrow> MultiPlane \<Rightarrow> Vec3f \<Rightarrow> nat \<Rightarrow> Scalar" where
  "plane_d vm mp point i = Dot vm (Minus vm point (Points mp ! i)) (Normals mp ! i)"

text \<open>
  The invariant of the loop of \<^verbatim>\<open>Gradient\<close> before it reads plane \<open>j\<close>, for the
  distances \<open>d\<close>: either nothing has replaced the initial winner, or the winner \<open>k\<close> is a
  plane read so far that none of them exceeds and that every earlier one is below.
\<close>

definition Gradient_inv :: "(nat \<Rightarrow> Scalar) \<Rightarrow> nat \<Rightarrow> Scalar \<Rightarrow> nat \<Rightarrow> bool" where
  "Gradient_inv d j maxVal maxValIdx =
     ((maxVal = NegInf \<and> maxValIdx = 0 \<and> (\<forall>i<j. d i = NaN \<or> d i = NegInf)) \<or>
      (maxValIdx < j \<and> maxVal = d maxValIdx \<and> maxVal \<noteq> NaN \<and>
       (\<forall>i<j. \<not> less_s maxVal (d i)) \<and>
       (\<forall>i<maxValIdx. less_s (d i) maxVal \<or> d i = NaN)))"

text \<open>
  Two surfaces with the same active count \<open>N\<close> and the same point and normal in every
  slot \<open>i < N\<close>.
\<close>

definition same_active_planes :: "MultiPlane \<Rightarrow> MultiPlane \<Rightarrow> bool" where
  "same_active_planes a b =
     (m_num_planes a = m_num_planes b \<and>
      (\<forall>i<nat (m_num_planes a). Points a ! i = Points b ! i \<and> Normals a ! i = Normals b ! i))"

section \<open>Clip\<close>

text \<open>\<^verbatim>\<open>vtkm::Range\<close> and \<^verbatim>\<open>vtkm::Bounds\<close>: doubles.\<close>

record Range =
  Min_r :: Scalar
  Max_r :: Scalar

record Bounds =
  X :: Range
  Y :: Range
  Z :: Range

text \<open>
  \<^verbatim>\<open>vtkm::cont::ImplicitFunctionHandle\<close>: empty, or the implicit function it was made
  from, with the arguments its constructor was given.
\<close>

datatype ImplicitFunctionHandle =
    Handle_empty
  | Handle_Box Vec3f Vec3f
  | Handle_Sphere Vec3f Scalar
  | Handle_Plane Vec3f Vec3f
  | Handle_MultiPlane MultiPlane

text \<open>
  Modelled from the spec: the multi-domain container \<^verbatim>\<open>vtkh::DataSet\<close> is not in the
  source tree. The spec gives it \<open>NumberOfDomains()\<close>, \<open>GetDomain(index) -> (mesh, domain_id)\<close>
  and \<open>AddDomain(mesh, domain_id)\<close>; it is the list of its domains in the order they were
  added. The spec does not say what \<open>GetDomain\<close> does out of range: an error here.
\<close>

type_synonym 'm DataSet = "('m \<times> int) list"

definition GetNumberOfDomains :: "'m DataSet \<Rightarrow> int" where
  "GetNumberOfDomains ds = int (length ds)"

definition GetDomain :: "'m DataSet \<Rightarrow> int \<Rightarrow> error + ('m \<times> int)" where
  "GetDomain ds i = (if 0 \<le> i \<and> i < int (length ds) then Inr (ds ! nat i) else Inl InvalidIndex)"

definition AddDomain :: "'m DataSet \<Rightarrow> 'm \<Rightarrow> int \<Rightarrow> 'm DataSet" where
  "AddDomain ds domain domain_id = ds @ [(domain, domain_id)]"

text \<open>
  The filter: \<open>m_func\<close> is \<^verbatim>\<open>m_internals->m_func\<close>; \<open>m_input\<close>, \<open>m_output\<close> and
  \<open>m_field_selection\<close> are the members of the base class \<^verbatim>\<open>Filter\<close> that this file uses
  (\<open>m_output\<close> is a pointer: \<open>None\<close> until an output is installed). \<open>'m\<close> is the type of
  a mesh and \<open>'s\<close> of a field selection, both opaque to this file.
\<close>

record ('m, 's) Clip =
  m_func :: ImplicitFunctionHandle
  m_invert :: bool
  m_input :: "'m DataSet"
  m_output :: "'m DataSet option"
  m_field_selection :: 's

definition GetFieldSelection :: "('m, 's) Clip \<Rightarrow> 's" where
  "GetFieldSelection c = m_field_selection c"

definition SetInvertClip :: "bool \<Rightarrow> ('m, 's) Clip \<Rightarrow> ('m, 's) Clip" where
  "SetInvertClip invert c = c\<lparr>m_invert := invert\<rparr>"

definition SetBoxClip :: "vtkm_math \<Rightarrow> Bounds \<Rightarrow> ('m, 's) Clip \<Rightarrow> ('m, 's) Clip" where
  "SetBoxClip vm clipping_bounds c =
     (let box = Handle_Box
            (Vec3f (to_float vm (Min_r (X clipping_bounds)))
                   (to_float vm (Min_r (Y clipping_bounds)))
                   (to_float vm (Min_r (Z clipping_bounds))))
            (Vec3f (to_float vm (Max_r (X clipping_bounds)))
                   (to_float vm (Max_r (Y clipping_bounds)))
                   (to_float vm (Max_r (Z clipping_bounds))))
      in c\<lparr>m_func := box\<rparr>)"

definition SetSphereClip ::
  "vtkm_math \<Rightarrow> Scalar arr3 \<Rightarrow> Scalar \<Rightarrow> ('m, 's) Clip \<Rightarrow> ('m, 's) Clip" where
  "SetSphereClip vm center radius c =
     (case center of (center0, center1, center2) \<Rightarrow>
      let vec_center = Vec3f (to_float vm center0) (to_float vm center1) (to_float vm center2);
          r = to_float vm radius;
          sphere = Handle_Sphere vec_center r
      in c\<lparr>m_func := sphere\<rparr>)"

definition SetPlaneClip ::
  "vtkm_math \<Rightarrow> Scalar arr3 \<Rightarrow> Scalar arr3 \<Rightarrow> ('m, 's) Clip \<Rightarrow> ('m, 's) Clip" where
  "SetPlaneClip vm origin normal c =
     (case origin of (origin0, origin1, origin2) \<Rightarrow>
      case normal of (normal0, normal1, normal2) \<Rightarrow>
      let vec_origin = Vec3f (to_float vm origin0) (to_float vm origin1) (to_float vm origin2);
          vec_normal = Vec3f (to_float vm normal0) (to_float vm normal1) (to_float vm normal2);
          plane = Handle_Plane vec_origin vec_normal
      in c\<lparr>m_func := plane\<rparr>)"

text \<open>
  \<^verbatim>\<open>Set2PlaneClip\<close>: the two local arrays are filled component by component, the first
  two normals are normalised in place, and the surface is constructed with two planes.
\<close>

definition Set2PlaneClip ::
  "vtkm_math \<Rightarrow> Scalar arr3 \<Rightarrow> Scalar arr3 \<Rightarrow> Scalar arr3 \<Rightarrow> Scalar arr3 \<Rightarrow>
   ('m, 's) Clip \<Rightarrow> ('m, 's) Clip" where
  "Set2PlaneClip vm origin1 normal1 origin2 normal2 c =
     (case origin1 of (origin1_0, origin1_1, origin1_2) \<Rightarrow>
      case normal1 of (normal1_0, normal1_1, normal1_2) \<Rightarrow>
      case origin2 of (origin2_0, origin2_1, origin2_2) \<Rightarrow>
      case normal2 of (normal2_0, normal2_1, normal2_2) \<Rightarrow>
      let plane_points =
            (Vec3f (to_float vm origin1_0) (to_float vm origin1_1) (to_float vm origin1_2),
             Vec3f (to_float vm origin2_0) (to_float vm origin2_1) (to_float vm origin2_2),
             Vec3f (Fin 0) (Fin 0) (Fin 0));
          plane_normals0 = Vec3f (to_float vm normal1_0) (to_float vm normal1_1) (to_float vm normal1_2);
          plane_normals1 = Vec3f (to_float vm normal2_0) (to_float vm normal2_1) (to_float vm normal2_2);
          plane_normals2 = Vec3f (Fin 0) (Fin 0) (Fin 0);
          plane_normals =
            (Normalize vm plane_normals0, Normalize vm plane_normals1, plane_normals2);
          planes = Handle_MultiPlane (MultiPlane_init plane_points plane_normals 2)
      in c\<lparr>m_func := planes\<rparr>)"

definition Set3PlaneClip ::
  "vtkm_math \<Rightarrow> Scalar arr3 \<Rightarrow> Scalar arr3 \<Rightarrow> Scalar arr3 \<Rightarrow> Scalar arr3 \<Rightarrow>
   Scalar arr3 \<Rightarrow> Scalar arr3 \<Rightarrow> ('m, 's) Clip \<Rightarrow> ('m, 's) Clip" where
  "Set3PlaneClip vm origin1 normal1 origin2 normal2 origin3 normal3 c =
     (case origin1 of (origin1_0, origin1_1, origin1_2) \<Rightarrow>
      case normal1 of (normal1_0, normal1_1, normal1_2) \<Rightarrow>
      case origin2 of (origin2_0, origin2_1, origin2_2) \<Rightarrow>
      case normal2 of (normal2_0, normal2_1, normal2_2) \<Rightarrow>
      case origin3 of (origin3_0, origin3_1, origin3_2) \<Rightarrow>
      case normal3 of (normal3_0, normal3_1, normal3_2) \<Rightarrow>
      let plane_points =
            (Vec3f (to_float vm origin1_0) (to_float vm origin1_1) (to_float vm origin1_2),
             Vec3f (to_float vm origin2_0) (to_float vm origin2_1) (to_float vm origin2_2),
             Vec3f (to_float vm origin3_0) (to_float vm origin3_1) (to_float vm origin3_2));
          plane_normals0 = Vec3f (to_float vm normal1_0) (to_float vm normal1_1) (to_float vm normal1_2);
          plane_normals1 = Vec3f (to_float vm normal2_0) (to_float vm normal2_1) (to_float vm normal2_2);
          plane_normals2 = Vec3f (to_float vm normal3_0) (to_float vm normal3_1) (to_float vm normal3_2);
          plane_normals =
            (Normalize vm plane_normals0, Normalize vm plane_normals1, Normalize vm plane_normals2);
          planes = Handle_MultiPlane (MultiPlane_init plane_points plane_normals 3)
      in c\<lparr>m_func := planes\<rparr>)"

text \<open>
  The collaborators of \<^verbatim>\<open>DoExecute\<close>, not in the source tree and taken as parameters:
  \<open>clip_Run\<close> is \<^verbatim>\<open>vtkmClip::Run\<close> and \<open>cleaner\<close> is the \<^verbatim>\<open>CleanGrid\<close> stage
  (\<^verbatim>\<open>SetInput\<close>, \<^verbatim>\<open>Update\<close>, \<^verbatim>\<open>GetOutput\<close>). Either may throw, and either may have
  effects outside the filter: \<open>'w\<close> is the state of everything outside it, which each call
  takes and returns.
\<close>

record ('m, 's, 'w) collaborators =
  clip_Run :: "'m \<Rightarrow> ImplicitFunctionHandle \<Rightarrow> bool \<Rightarrow> 's \<Rightarrow> 'w \<Rightarrow> (error + 'm) \<times> 'w"
  cleaner :: "'m DataSet \<Rightarrow> 'w \<Rightarrow> (error + 'm DataSet) \<times> 'w"

text \<open>
  The loop of \<^verbatim>\<open>DoExecute\<close> from domain \<open>i\<close> on, with the local \<open>data_set\<close> built so
  far. An exception leaves the loop with the error.
\<close>

function DoExecute_loop ::
  "('m, 's, 'w) collaborators \<Rightarrow> ('m, 's) Clip \<Rightarrow> int \<Rightarrow> int \<Rightarrow> 'm DataSet \<Rightarrow> 'w \<Rightarrow>
   (error + 'm DataSet) \<times> 'w" where
  "DoExecute_loop ex c i num_domains data_set w =
     (if i < num_domains then
        (case GetDomain (m_input c) i of
           Inl e \<Rightarrow> (Inl e, w)
         | Inr (domain, domain_id) \<Rightarrow>
             (case clip_Run ex domain (m_func c) (m_invert c) (GetFieldSelection c) w of
                (Inl e, w') \<Rightarrow> (Inl e, w')
              | (Inr dataset, w') \<Rightarrow>
                  DoExecute_loop ex c (i + 1) num_domains
                    (AddDomain data_set dataset domain_id) w'))
      else (Inr data_set, w))"
  by pat_completeness auto
termination
  by (relation "measure (\<lambda>(ex, c, i, num_domains, data_set, w). nat (num_domains - i))") auto

text \<open>
  \<^verbatim>\<open>DoExecute\<close> returns the exception that left it, if any, the filter as it is then,
  and the outside state.
\<close>

definition DoExecute ::
  "('m, 's, 'w) collaborators \<Rightarrow> ('m, 's) Clip \<Rightarrow> 'w \<Rightarrow> error option \<times> ('m, 's) Clip \<times> 'w" where
  "DoExecute ex c w =
     (let num_domains = GetNumberOfDomains (m_input c) in
      case DoExecute_loop ex c 0 num_domains [] w of
        (Inl e, w') \<Rightarrow> (Some e, c, w')
      | (Inr data_set, w') \<Rightarrow>
          (case cleaner ex data_set w' of
             (Inl e, w'') \<Rightarrow> (Some e, c, w'')
           | (Inr out, w'') \<Rightarrow> (None, c\<lparr>m_output := Some out\<rparr>, w'')))"

text \<open>
  The spec's words for the loop: for each domain in turn, the clip primitive is invoked on
  its mesh and the mesh it returns is kept under the domain's id; the first failure ends
  the run.
\<close>

fun clip_domains ::
  "('m, 's, 'w) collaborators \<Rightarrow> ImplicitFunctionHandle \<Rightarrow> bool \<Rightarrow> 's \<Rightarrow> 'm DataSet \<Rightarrow> 'w \<Rightarrow>
   (error + 'm DataSet) \<times> 'w" where
  "clip_domains ex f invert fs [] w = (Inr [], w)"
| "clip_domains ex f invert fs ((domain, domain_id) # rest) w =
     (case clip_Run ex domain f invert fs w of
        (Inl e, w') \<Rightarrow> (Inl e, w')
      | (Inr dataset, w') \<Rightarrow>
          (case clip_domains ex f invert fs rest w' of
             (Inl e, w'') \<Rightarrow> (Inl e, w'')
           | (Inr ds, w'') \<Rightarrow> (Inr ((dataset, domain_id) # ds), w'')))"

text \<open>The outside state after the clip primitive has been invoked once on each domain of a list, in order.\<close>

definition world_after ::
  "('m, 's, 'w) collaborators \<Rightarrow> ImplicitFunctionHandle \<Rightarrow> bool \<Rightarrow> 's \<Rightarrow> 'm DataSet \<Rightarrow> 'w \<Rightarrow> 'w" where
  "world_after ex f invert fs doms w =
     foldl (\<lambda>w' (domain, domain_id). snd (clip_Run ex domain f invert fs w')) w doms"

text \<open>
  The invocation of the clip primitive on domain \<open>i\<close> of a list, after it has been
  invoked once on each domain before \<open>i\<close>: what it returns or throws, and the outside
  state it leaves.
\<close>

definition clip_call ::
  "('m, 's, 'w) collaborators \<Rightarrow> ImplicitFunctionHandle \<Rightarrow> bool \<Rightarrow> 's \<Rightarrow> 'm DataSet \<Rightarrow> 'w \<Rightarrow>
   nat \<Rightarrow> (error + 'm) \<times> 'w" where
  "clip_call ex f invert fs doms w i =
     clip_Run ex (fst (doms ! i)) f invert fs (world_after ex f invert fs (take i doms) w)"

text \<open>
  What the clip primitive returns or throws for domain \<open>i\<close> of the filter's input, with
  the filter's surface, invert flag and field selection.
\<close>

definition clip_result ::
  "('m, 's, 'w) collaborators \<Rightarrow> ('m, 's) Clip \<Rightarrow> 'w \<Rightarrow> nat \<Rightarrow> error + 'm" where
  "clip_result ex c w i =
     fst (clip_call ex (m_func c) (m_invert c) (m_field_selection c) (m_input c) w i)"

text \<open>The outside state once the clip primitive has been invoked on the first \<open>n\<close> domains of the input.\<close>

definition world_after_domains ::
  "('m, 's, 'w) collaborators \<Rightarrow> ('m, 's) Clip \<Rightarrow> 'w \<Rightarrow> nat \<Rightarrow> 'w" where
  "world_after_domains ex c w n =
     world_after ex (m_func c) (m_invert c) (m_field_selection c) (take n (m_input c)) w"

text \<open>
  The constructor \<^verbatim>\<open>Clip()\<close>: an empty handle and no inversion. The members of the base
  class are set through the base's own interface, which is not in this file: they are
  given.
\<close>

definition Clip_init :: "'m DataSet \<Rightarrow> 's \<Rightarrow> ('m, 's) Clip" where
  "Clip_init input fs =
     \<lparr>m_func = Handle_empty, m_invert = False, m_input = input, m_output = None,
      m_field_selection = fs\<rparr>"

section \<open>Instances for running the model\<close>

text \<open>
  Arithmetic without rounding on finite operands (any other operand gives NaN), and a
  conversion to float that keeps the value: the primitives at inputs where the float
  operations are exact.
\<close>

fun exact_add :: "Scalar \<Rightarrow> Scalar \<Rightarrow> Scalar" where
  "exact_add (Fin a) (Fin b) = Fin (a + b)"
| "exact_add x y = NaN"

fun exact_sub :: "Scalar \<Rightarrow> Scalar \<Rightarrow> Scalar" where
  "exact_sub (Fin a) (Fin b) = Fin (a - b)"
| "exact_sub x y = NaN"

fun exact_mul :: "Scalar \<Rightarrow> Scalar \<Rightarrow> Scalar" where
  "exact_mul (Fin a) (Fin b) = Fin (a * b)"
| "exact_mul x y = NaN"

fun exact_Dot :: "Vec3f \<Rightarrow> Vec3f \<Rightarrow> Scalar" where
  "exact_Dot (Vec3f a0 a1 a2) (Vec3f b0 b1 b2) =
     exact_add (exact_add (exact_mul a0 b0) (exact_mul a1 b1)) (exact_mul a2 b2)"

fun exact_Minus :: "Vec3f \<Rightarrow> Vec3f \<Rightarrow> Vec3f" where
  "exact_Minus (Vec3f a0 a1 a2) (Vec3f b0 b1 b2) =
     Vec3f (exact_sub a0 b0) (exact_sub a1 b1) (exact_sub a2 b2)"

text \<open>A vector divided by its length; the zero vector has none and gives NaN components.\<close>

fun exact_Normalize :: "Vec3f \<Rightarrow> Vec3f" where
  "exact_Normalize (Vec3f (Fin x) (Fin y) (Fin z)) =
     (if x * x + y * y + z * z = 0 then Vec3f NaN NaN NaN
      else Vec3f (Fin (x / sqrt (x * x + y * y + z * z)))
                 (Fin (y / sqrt (x * x + y * y + z * z)))
                 (Fin (z / sqrt (x * x + y * y + z * z))))"
| "exact_Normalize v = Vec3f NaN NaN NaN"

definition exact_math :: vtkm_math where
  "exact_math = \<lparr>Dot = exact_Dot, Minus = exact_Minus, Normalize = exact_Normalize,
     to_float = (\<lambda>x. x)\<rparr>"

text \<open>
  Collaborators over meshes that are numbers, with the list of the meshes the clip
  primitive was invoked on as the outside state: the primitive throws on mesh 0 and adds
  100 to any other mesh, and the cleanup keeps the data set as it is.
\<close>

definition logging_collaborators :: "(nat, unit, nat list) collaborators" where
  "logging_collaborators =
     \<lparr>clip_Run = (\<lambda>domain f invert fs w.
         (if domain = 0 then Inl (Thrown ''clip'') else Inr (domain + 100), w @ [domain])),
      cleaner = (\<lambda>ds w. (Inr ds, w))\<rparr>"

text \<open>
  A surface as the constructor makes it: two planes through the origin with normals
  along x and y.
\<close>

definition tie_planes :: MultiPlane where
  "tie_planes = MultiPlane_init (zero_vec, zero_vec, zero_vec)
     (Vec3f (Fin 1) (Fin 0) (Fin 0), Vec3f (Fin 0) (Fin 1) (Fin 0), zero_vec) 2"

text \<open>
  Two filters over such meshes: one with two domains whose ids are not in order, and one
  whose second domain makes the clip primitive throw.
\<close>

definition two_domain_filter :: "(nat, unit) Clip" where
  "two_domain_filter = SetInvertClip True (Clip_init [(10, 7), (20, 3)] ())"

definition failing_domain_filter :: "(nat, unit) Clip" where
  "failing_domain_filter = Clip_init [(10, 7), (0, 3), (30, 5)] ()"

section \<open>Comparison of scalars\<close>

declare Value_loop.simps [simp del]
declare Gradient_loop.simps [simp del]

lemma less_s_irrefl: "\<not> less_s x x"
  by (cases x) auto

lemma less_s_trans: "less_s x y \<Longrightarrow> less_s y z \<Longrightarrow> less_s x z"
  by (cases x; cases y; cases z) auto

lemma less_s_total: "x \<noteq> NaN \<Longrightarrow> y \<noteq> NaN \<Longrightarrow> less_s x y \<or> x = y \<or> less_s y x"
  by (cases x; cases y) auto

lemma less_s_not_NaN: "less_s x y \<Longrightarrow> x \<noteq> NaN \<and> y \<noteq> NaN"
  by (cases x; cases y) auto

lemma le_s_trans: "le_s x y \<Longrightarrow> le_s y z \<Longrightarrow> le_s x z"
  unfolding le_s_def using less_s_trans by blast

lemma less_le_s_trans: "less_s x y \<Longrightarrow> le_s y z \<Longrightarrow> less_s x z"
  unfolding le_s_def using less_s_trans by blast

lemma vtkm_Max_cases: "vtkm_Max x y = x \<or> vtkm_Max x y = y"
  by (simp add: vtkm_Max_def)

lemma vtkm_Max_not_NaN: "x \<noteq> NaN \<Longrightarrow> vtkm_Max x y \<noteq> NaN"
  by (simp add: vtkm_Max_def)

lemma vtkm_Max_ge_left: "x \<noteq> NaN \<Longrightarrow> le_s x (vtkm_Max x y)"
  by (auto simp: vtkm_Max_def le_s_def)

lemma vtkm_Max_ge_right: "x \<noteq> NaN \<Longrightarrow> y \<noteq> NaN \<Longrightarrow> le_s y (vtkm_Max x y)"
  using less_s_total [of x y] by (auto simp: vtkm_Max_def le_s_def)

text \<open>
  With a first operand that is not NaN, \<^verbatim>\<open>fmax\<close> is \<^verbatim>\<open>x < y ? y : x\<close>; the running
  maximum of \<^verbatim>\<open>Value\<close> starts at minus infinity and never is NaN.
\<close>

lemma vtkm_Max_std_max: "x \<noteq> NaN \<Longrightarrow> vtkm_Max x y = (if less_s x y then y else x)"
  by (cases x; cases y) (auto simp: vtkm_Max_def)

lemma Value_loop_foldl:
  "nat (m_num_planes mp) \<le> length (Points mp) \<Longrightarrow> nat (m_num_planes mp) \<le> length (Normals mp) \<Longrightarrow>
   Value_loop vm mp point index maxVal =
     Inr (foldl vtkm_Max maxVal (map (plane_d vm mp point) [index..<nat (m_num_planes mp)]))"
proof (induction vm mp point index maxVal rule: Value_loop.induct)
  case (1 vm mp point index maxVal)
  show ?case
  proof (cases "int index < m_num_planes mp")
    case True
    then have lt: "index < nat (m_num_planes mp)" by linarith
    with "1.prems" have inb: "index < length (Points mp) \<and> index < length (Normals mp)" by linarith
    have "Value_loop vm mp point index maxVal =
        Value_loop vm mp point (index + 1) (vtkm_Max maxVal (plane_d vm mp point index))"
      using True inb by (subst Value_loop.simps) (simp add: plane_d_def Let_def)
    also have "\<dots> = Inr (foldl vtkm_Max (vtkm_Max maxVal (plane_d vm mp point index))
        (map (plane_d vm mp point) [index + 1..<nat (m_num_planes mp)]))"
      using "1.IH" [OF True inb refl refl refl] "1.prems" by (simp add: plane_d_def [symmetric])
    finally have step: "Value_loop vm mp point index maxVal =
        Inr (foldl vtkm_Max (vtkm_Max maxVal (plane_d vm mp point index))
          (map (plane_d vm mp point) [index + 1..<nat (m_num_planes mp)]))" .
    have "[index..<nat (m_num_planes mp)] = index # [index + 1..<nat (m_num_planes mp)]"
      using lt by (simp add: upt_conv_Cons)
    with step show ?thesis by simp
  next
    case False
    then have "nat (m_num_planes mp) \<le> index" by linarith
    then show ?thesis using False by (subst Value_loop.simps) simp
  qed
qed

lemma foldl_Max_not_NaN: "acc \<noteq> NaN \<Longrightarrow> foldl vtkm_Max acc xs \<noteq> NaN"
  by (induction xs arbitrary: acc) (auto simp: vtkm_Max_not_NaN)

lemma foldl_Max_ge_acc: "acc \<noteq> NaN \<Longrightarrow> le_s acc (foldl vtkm_Max acc xs)"
proof (induction xs arbitrary: acc)
  case Nil
  then show ?case by (simp add: le_s_def)
next
  case (Cons x xs)
  have "le_s acc (vtkm_Max acc x)" using Cons.prems by (rule vtkm_Max_ge_left)
  moreover have "le_s (vtkm_Max acc x) (foldl vtkm_Max (vtkm_Max acc x) xs)"
    using Cons.IH [of "vtkm_Max acc x"] Cons.prems by (simp add: vtkm_Max_not_NaN)
  ultimately have "le_s acc (foldl vtkm_Max (vtkm_Max acc x) xs)" by (rule le_s_trans)
  then show ?case by simp
qed

lemma foldl_Max_upper:
  "acc \<noteq> NaN \<Longrightarrow> x \<in> set xs \<Longrightarrow> x \<noteq> NaN \<Longrightarrow> le_s x (foldl vtkm_Max acc xs)"
proof (induction xs arbitrary: acc)
  case Nil
  then show ?case by simp
next
  case (Cons y ys)
  have nn: "vtkm_Max acc y \<noteq> NaN" using Cons.prems(1) by (rule vtkm_Max_not_NaN)
  show ?case
  proof (cases "x = y")
    case True
    have "le_s x (vtkm_Max acc y)" using True Cons.prems by (simp add: vtkm_Max_ge_right)
    moreover have "le_s (vtkm_Max acc y) (foldl vtkm_Max (vtkm_Max acc y) ys)"
      using nn by (rule foldl_Max_ge_acc)
    ultimately have "le_s x (foldl vtkm_Max (vtkm_Max acc y) ys)" by (rule le_s_trans)
    then show ?thesis by simp
  next
    case False
    then have "x \<in> set ys" using Cons.prems by simp
    then show ?thesis using Cons.IH [OF nn _ Cons.prems(3)] by simp
  qed
qed

lemma foldl_Max_attained: "foldl vtkm_Max acc xs = acc \<or> foldl vtkm_Max acc xs \<in> set xs"
proof (induction xs arbitrary: acc)
  case Nil
  then show ?case by simp
next
  case (Cons y ys)
  show ?case using Cons.IH [of "vtkm_Max acc y"] vtkm_Max_cases [of acc y] by auto
qed

lemma foldl_Max_all_NaN: "\<forall>x \<in> set xs. x = NaN \<Longrightarrow> acc \<noteq> NaN \<Longrightarrow> foldl vtkm_Max acc xs = acc"
  by (induction xs arbitrary: acc) (auto simp: vtkm_Max_def)

lemma wf_MultiPlane_default: "wf_MultiPlane MultiPlane_default"
  by (simp add: wf_MultiPlane_def MultiPlane_default_def)

section \<open>Value and Gradient\<close>

text \<open>
  Claim C1. For a surface whose arrays have their declared size and whose active count
  \<open>N\<close> is at most that size, \<open>Value\<close> returns the maximum of the distances \<open>d_i\<close>,
  \<open>i < N\<close>: it is \<^verbatim>\<open>vtkm::Max\<close> folded over them from minus infinity; every \<open>d_i\<close>
  that is a number is at most it; it is one of them when one of them is a number, and
  minus infinity when none is (in particular when \<open>N \<le> 0\<close>). Consequently it is negative
  when every \<open>d_i\<close> is negative, and positive when some \<open>d_i\<close> is positive.
\<close>

theorem Value_is_max:
  assumes wf: "wf_MultiPlane mp" and cap: "m_num_planes mp \<le> 6"
  shows "\<exists>v. Value vm mp point = Inr v
    \<and> v = foldl vtkm_Max NegativeInfinity
          (map (plane_d vm mp point) [0..<nat (m_num_planes mp)])
    \<and> (\<forall>i<nat (m_num_planes mp). plane_d vm mp point i \<noteq> NaN \<longrightarrow> le_s (plane_d vm mp point i) v)
    \<and> ((\<exists>i<nat (m_num_planes mp). plane_d vm mp point i \<noteq> NaN) \<longrightarrow>
          (\<exists>i<nat (m_num_planes mp). v = plane_d vm mp point i))
    \<and> ((\<forall>i<nat (m_num_planes mp). plane_d vm mp point i = NaN) \<longrightarrow> v = NegativeInfinity)
    \<and> ((\<forall>i<nat (m_num_planes mp). less_s (plane_d vm mp point i) (Fin 0)) \<longrightarrow> less_s v (Fin 0))
    \<and> ((\<exists>i<nat (m_num_planes mp). greater_s (plane_d vm mp point i) (Fin 0)) \<longrightarrow>
          greater_s v (Fin 0))"
proof -
  define n where "n = nat (m_num_planes mp)"
  define d where "d = plane_d vm mp point"
  define v where "v = foldl vtkm_Max NegInf (map d [0..<n])"
  have len: "n \<le> length (Points mp)" "n \<le> length (Normals mp)"
    using wf cap by (simp_all add: wf_MultiPlane_def n_def)
  have val: "Value vm mp point = Inr v"
    using len unfolding Value_def NegativeInfinity_def v_def d_def n_def
    by (rule Value_loop_foldl)
  have set_d: "set (map d [0..<n]) = d ` {i. i < n}" by auto
  have upper: "le_s (d i) v" if "i < n" "d i \<noteq> NaN" for i
  proof -
    have "d i \<in> set (map d [0..<n])" using that(1) by simp
    then show ?thesis unfolding v_def using that(2) by (intro foldl_Max_upper) simp_all
  qed
  have att: "v = NegInf \<or> (\<exists>i<n. v = d i)"
    using foldl_Max_attained [of NegInf "map d [0..<n]"] unfolding v_def by auto
  have attained: "\<exists>i<n. v = d i" if "i < n" "d i \<noteq> NaN" for i
  proof (cases "v = NegInf")
    case True
    have "le_s (d i) NegInf" using upper [OF that] True by simp
    then have "d i = NegInf" by (cases "d i") (auto simp: le_s_def)
    then show ?thesis using True that(1) by auto
  next
    case False
    then show ?thesis using att by simp
  qed
  have allnan: "v = NegInf" if "\<forall>i<n. d i = NaN"
    unfolding v_def using that by (intro foldl_Max_all_NaN) auto
  have neg: "less_s v (Fin 0)" if "\<forall>i<n. less_s (d i) (Fin 0)"
    using att that by auto
  have pos: "greater_s v (Fin 0)" if "i < n" "greater_s (d i) (Fin 0)" for i
  proof -
    have lt: "less_s (Fin 0) (d i)" using that(2) by (simp add: greater_s_def)
    then have "d i \<noteq> NaN" using less_s_not_NaN by blast
    with that(1) have "le_s (d i) v" by (rule upper)
    with lt have "less_s (Fin 0) v" by (rule less_le_s_trans)
    then show ?thesis by (simp add: greater_s_def)
  qed
  have c2: "v = foldl vtkm_Max NegInf (map d [0..<n])" by (simp add: v_def)
  have c3: "\<forall>i<n. d i \<noteq> NaN \<longrightarrow> le_s (d i) v" using upper by blast
  have c4: "(\<exists>i<n. d i \<noteq> NaN) \<longrightarrow> (\<exists>i<n. v = d i)" using attained by blast
  have c5: "(\<forall>i<n. d i = NaN) \<longrightarrow> v = NegInf" using allnan by blast
  have c6: "(\<forall>i<n. less_s (d i) (Fin 0)) \<longrightarrow> less_s v (Fin 0)" using neg by blast
  have c7: "(\<exists>i<n. greater_s (d i) (Fin 0)) \<longrightarrow> greater_s v (Fin 0)" using pos by blast
  from val c2 c3 c4 c5 c6 c7 have
    "Value vm mp point = Inr v \<and> v = foldl vtkm_Max NegInf (map d [0..<n])
      \<and> (\<forall>i<n. d i \<noteq> NaN \<longrightarrow> le_s (d i) v)
      \<and> ((\<exists>i<n. d i \<noteq> NaN) \<longrightarrow> (\<exists>i<n. v = d i))
      \<and> ((\<forall>i<n. d i = NaN) \<longrightarrow> v = NegInf)
      \<and> ((\<forall>i<n. less_s (d i) (Fin 0)) \<longrightarrow> less_s v (Fin 0))
      \<and> ((\<exists>i<n. greater_s (d i) (Fin 0)) \<longrightarrow> greater_s v (Fin 0))"
    by (intro conjI)
  then show ?thesis
    unfolding NegativeInfinity_def n_def d_def by (rule exI)
qed

theorem Value_is_max_witness:
  "wf_MultiPlane MultiPlane_default \<and> m_num_planes MultiPlane_default \<le> 6
   \<and> Value exact_math MultiPlane_default (Vec3f (Fin 2) (Fin 0) (Fin 0)) = Inr (Fin 2)
   \<and> plane_d exact_math MultiPlane_default (Vec3f (Fin 2) (Fin 0) (Fin 0)) 0 = Fin (- 2)
   \<and> plane_d exact_math MultiPlane_default (Vec3f (Fin 2) (Fin 0) (Fin 0)) 1 = Fin 2
   \<and> plane_d exact_math MultiPlane_default (Vec3f (Fin 2) (Fin 0) (Fin 0)) 2 = Fin 0
   \<and> greater_s (Fin 2) (Fin 0)"
proof -
  have h1: "wf_MultiPlane MultiPlane_default" by (rule wf_MultiPlane_default)
  have h2: "m_num_planes MultiPlane_default \<le> 6" by (simp add: MultiPlane_default_def)
  have d: "plane_d exact_math MultiPlane_default (Vec3f (Fin 2) (Fin 0) (Fin 0)) 0 = Fin (- 2)"
    "plane_d exact_math MultiPlane_default (Vec3f (Fin 2) (Fin 0) (Fin 0)) 1 = Fin 2"
    "plane_d exact_math MultiPlane_default (Vec3f (Fin 2) (Fin 0) (Fin 0)) 2 = Fin 0"
    by (simp_all add: plane_d_def MultiPlane_default_def exact_math_def zero_vec_def)
  have n: "nat (m_num_planes MultiPlane_default) = 3" by (simp add: MultiPlane_default_def)
  from Value_is_max [OF h1 h2, of exact_math "Vec3f (Fin 2) (Fin 0) (Fin 0)"]
  obtain v where v: "Value exact_math MultiPlane_default (Vec3f (Fin 2) (Fin 0) (Fin 0)) = Inr v"
    and fold: "v = foldl vtkm_Max NegativeInfinity
          (map (plane_d exact_math MultiPlane_default (Vec3f (Fin 2) (Fin 0) (Fin 0)))
            [0..<nat (m_num_planes MultiPlane_default)])"
    by blast
  have "[0..<3] = [0, 1, 2::nat]" by (simp add: upt_rec)
  with fold n d have "v = Fin 2"
    by (simp add: NegativeInfinity_def vtkm_Max_def)
  with v h1 h2 d show ?thesis by (simp add: greater_s_def)
qed

lemma less_s_NegInf_iff: "less_s NegInf x \<longleftrightarrow> x \<noteq> NaN \<and> x \<noteq> NegInf"
  by (cases x) auto

lemma not_less_s_iff: "x \<noteq> NaN \<Longrightarrow> y \<noteq> NaN \<Longrightarrow> \<not> less_s x y \<longleftrightarrow> le_s y x"
  by (cases x; cases y) (auto simp: le_s_def)

lemma Gradient_inv_init: "Gradient_inv d 0 NegInf 0"
  by (simp add: Gradient_inv_def)

lemma Gradient_inv_replace:
  assumes inv: "Gradient_inv d j m k" and gt: "less_s m (d j)"
  shows "Gradient_inv d (Suc j) (d j) j"
proof -
  have nn: "d j \<noteq> NaN" "m \<noteq> NaN" using gt less_s_not_NaN by blast+
  have a: "\<not> less_s (d j) (d i)" if "i < Suc j" for i
  proof (cases "i = j")
    case True
    then show ?thesis by (simp add: less_s_irrefl)
  next
    case False
    then have ij: "i < j" using that by simp
    from inv show ?thesis unfolding Gradient_inv_def
    proof (elim disjE conjE)
      assume "\<forall>i<j. d i = NaN \<or> d i = NegInf"
      then have "d i = NaN \<or> d i = NegInf" using ij by blast
      then show ?thesis by (cases "d j") auto
    next
      assume "\<forall>i<j. \<not> less_s m (d i)"
      then have "\<not> less_s m (d i)" using ij by blast
      then show ?thesis using gt less_s_trans by blast
    qed
  qed
  have b: "less_s (d i) (d j) \<or> d i = NaN" if "i < j" for i
    using inv unfolding Gradient_inv_def
  proof (elim disjE conjE)
    assume "m = NegInf" "\<forall>i<j. d i = NaN \<or> d i = NegInf"
    then have "d i = NaN \<or> d i = m" using that by blast
    then show ?thesis using gt by auto
  next
    assume "\<forall>i<j. \<not> less_s m (d i)"
    then have n: "\<not> less_s m (d i)" using that by blast
    show ?thesis
    proof (cases "d i = NaN")
      case True
      then show ?thesis by simp
    next
      case False
      then have "less_s (d i) m \<or> d i = m" using less_s_total [of "d i" m] nn n by blast
      then show ?thesis using gt less_s_trans by blast
    qed
  qed
  show ?thesis unfolding Gradient_inv_def using nn(1) a b by blast
qed

lemma Gradient_inv_keep:
  assumes inv: "Gradient_inv d j m k" and ngt: "\<not> less_s m (d j)"
  shows "Gradient_inv d (Suc j) m k"
  using inv unfolding Gradient_inv_def
proof (elim disjE conjE)
  assume h: "m = NegInf" "k = 0" "\<forall>i<j. d i = NaN \<or> d i = NegInf"
  have "d j = NaN \<or> d j = NegInf" using ngt h(1) by (simp add: less_s_NegInf_iff)
  then have "\<forall>i<Suc j. d i = NaN \<or> d i = NegInf" using h(3) by (simp add: less_Suc_eq)
  then show "(m = NegInf \<and> k = 0 \<and> (\<forall>i<Suc j. d i = NaN \<or> d i = NegInf)) \<or>
      (k < Suc j \<and> m = d k \<and> m \<noteq> NaN \<and> (\<forall>i<Suc j. \<not> less_s m (d i)) \<and>
       (\<forall>i<k. less_s (d i) m \<or> d i = NaN))"
    using h by blast
next
  assume h: "k < j" "m = d k" "m \<noteq> NaN" "\<forall>i<j. \<not> less_s m (d i)"
    "\<forall>i<k. less_s (d i) m \<or> d i = NaN"
  have "\<forall>i<Suc j. \<not> less_s m (d i)" using h(4) ngt by (simp add: less_Suc_eq)
  moreover have "k < Suc j" using h(1) by simp
  ultimately show "(m = NegInf \<and> k = 0 \<and> (\<forall>i<Suc j. d i = NaN \<or> d i = NegInf)) \<or>
      (k < Suc j \<and> m = d k \<and> m \<noteq> NaN \<and> (\<forall>i<Suc j. \<not> less_s m (d i)) \<and>
       (\<forall>i<k. less_s (d i) m \<or> d i = NaN))"
    using h by blast
qed

lemma Gradient_inv_final:
  assumes inv: "Gradient_inv d n m k" and pos: "0 < n"
  shows "k < n \<and> (\<forall>i<n. \<not> less_s (d k) (d i)) \<and> (\<forall>i<k. less_s (d i) (d k) \<or> d i = NaN)"
  using inv unfolding Gradient_inv_def
proof (elim disjE conjE)
  assume h: "m = NegInf" "k = 0" "\<forall>i<n. d i = NaN \<or> d i = NegInf"
  have d0: "d 0 = NaN \<or> d 0 = NegInf" using h(3) pos by blast
  have "\<not> less_s (d 0) (d i)" if "i < n" for i
  proof -
    have "d i = NaN \<or> d i = NegInf" using h(3) that by blast
    with d0 show ?thesis by auto
  qed
  then show ?thesis using h(2) pos by simp
next
  assume h: "k < n" "m = d k" "\<forall>i<n. \<not> less_s m (d i)" "\<forall>i<k. less_s (d i) m \<or> d i = NaN"
  then show ?thesis by simp
qed

lemma Gradient_loop_inv:
  "nat (m_num_planes mp) \<le> length (Points mp) \<Longrightarrow> nat (m_num_planes mp) \<le> length (Normals mp) \<Longrightarrow>
   index \<le> nat (m_num_planes mp) \<Longrightarrow>
   Gradient_inv (plane_d vm mp point) index maxVal maxValIdx \<Longrightarrow>
   \<exists>k m. Gradient_loop vm mp point index maxVal maxValIdx = Inr k \<and>
         Gradient_inv (plane_d vm mp point) (nat (m_num_planes mp)) m k"
proof (induction vm mp point index maxVal maxValIdx rule: Gradient_loop.induct)
  case (1 vm mp point index maxVal maxValIdx)
  let ?d = "plane_d vm mp point"
  show ?case
  proof (cases "int index < m_num_planes mp")
    case False
    then have "index = nat (m_num_planes mp)" using "1.prems"(3) by linarith
    moreover have "Gradient_loop vm mp point index maxVal maxValIdx = Inr maxValIdx"
      using False by (subst Gradient_loop.simps) simp
    ultimately show ?thesis using "1.prems"(4) by blast
  next
    case True
    then have lt: "index < nat (m_num_planes mp)" by linarith
    then have inb: "index < length (Points mp) \<and> index < length (Normals mp)"
      using "1.prems"(1,2) by linarith
    have le': "index + 1 \<le> nat (m_num_planes mp)" using lt by simp
    show ?thesis
    proof (cases "greater_s (?d index) maxVal")
      case g: True
      have unf: "Gradient_loop vm mp point index maxVal maxValIdx =
          Gradient_loop vm mp point (index + 1) (?d index) index"
        using True inb g by (subst Gradient_loop.simps) (simp add: plane_d_def Let_def)
      have inv': "Gradient_inv ?d (index + 1) (?d index) index"
        using Gradient_inv_replace [OF "1.prems"(4)] g by (simp add: greater_s_def)
      have g': "greater_s (Dot vm (Minus vm point (Points mp ! index)) (Normals mp ! index)) maxVal"
        using g by (simp add: plane_d_def)
      have inv'': "Gradient_inv ?d (index + 1)
          (Dot vm (Minus vm point (Points mp ! index)) (Normals mp ! index)) index"
        using inv' by (simp add: plane_d_def)
      from "1.IH"(1) [OF True inb refl refl refl g' "1.prems"(1,2) le' inv'']
      show ?thesis using unf by (simp add: plane_d_def)
    next
      case g: False
      have unf: "Gradient_loop vm mp point index maxVal maxValIdx =
          Gradient_loop vm mp point (index + 1) maxVal maxValIdx"
        using True inb g by (subst Gradient_loop.simps) (simp add: plane_d_def Let_def)
      have inv': "Gradient_inv ?d (index + 1) maxVal maxValIdx"
        using Gradient_inv_keep [OF "1.prems"(4)] g by (simp add: greater_s_def)
      have g': "\<not> greater_s (Dot vm (Minus vm point (Points mp ! index)) (Normals mp ! index)) maxVal"
        using g by (simp add: plane_d_def)
      from "1.IH"(2) [OF True inb refl refl refl g' "1.prems"(1,2) le' inv']
      show ?thesis using unf by simp
    qed
  qed
qed

lemma wf_SetPlanes: "wf_MultiPlane mp \<Longrightarrow> wf_MultiPlane (SetPlanes points normals mp)"
  by (cases points; cases normals) (simp add: wf_MultiPlane_def SetPlanes_def Modified_def)

lemma wf_MultiPlane_init: "wf_MultiPlane (MultiPlane_init points normals num_planes)"
  using wf_SetPlanes [OF wf_MultiPlane_default, of points normals]
  by (simp add: MultiPlane_init_def wf_MultiPlane_def)

lemma Gradient_result:
  assumes wf: "wf_MultiPlane mp" and cap: "m_num_planes mp \<le> 6"
  shows "\<exists>k m. Gradient_loop vm mp point 0 NegativeInfinity 0 = Inr k \<and>
           Gradient_inv (plane_d vm mp point) (nat (m_num_planes mp)) m k"
proof -
  have len: "nat (m_num_planes mp) \<le> length (Points mp)" "nat (m_num_planes mp) \<le> length (Normals mp)"
    using wf cap by (simp_all add: wf_MultiPlane_def)
  show ?thesis unfolding NegativeInfinity_def
    using len by (intro Gradient_loop_inv) (simp_all add: Gradient_inv_init)
qed

text \<open>
  Claim C2. For a surface whose arrays have their declared size and whose active count
  \<open>N\<close> is between 1 and that size, \<open>Gradient\<close> returns the stored normal of an active
  plane \<open>k\<close> such that no active plane has a distance greater than \<open>d_k\<close> (so every
  \<open>d_i\<close> is at most \<open>d_k\<close> when none is NaN) and every plane before \<open>k\<close> has a
  distance strictly below \<open>d_k\<close> (or NaN): among tied maximal planes the one of lowest
  index wins, a later plane replacing the winner only when strictly greater.
\<close>

theorem Gradient_is_argmax:
  assumes wf: "wf_MultiPlane mp" and one: "1 \<le> m_num_planes mp" and cap: "m_num_planes mp \<le> 6"
  shows "\<exists>k<nat (m_num_planes mp). Gradient vm mp point = Inr (Normals mp ! k)
    \<and> (\<forall>i<nat (m_num_planes mp). \<not> greater_s (plane_d vm mp point i) (plane_d vm mp point k))
    \<and> ((\<forall>i<nat (m_num_planes mp). plane_d vm mp point i \<noteq> NaN) \<longrightarrow>
          (\<forall>i<nat (m_num_planes mp). le_s (plane_d vm mp point i) (plane_d vm mp point k)))
    \<and> (\<forall>i<k. less_s (plane_d vm mp point i) (plane_d vm mp point k) \<or> plane_d vm mp point i = NaN)"
proof -
  define n where "n = nat (m_num_planes mp)"
  define d where "d = plane_d vm mp point"
  have pos: "0 < n" using one by (simp add: n_def)
  from Gradient_result [OF wf cap, of vm point]
  obtain k m where loop: "Gradient_loop vm mp point 0 NegativeInfinity 0 = Inr k"
    and inv: "Gradient_inv d n m k" unfolding n_def d_def by blast
  from Gradient_inv_final [OF inv pos]
  have kn: "k < n" and mx: "\<forall>i<n. \<not> less_s (d k) (d i)"
    and low: "\<forall>i<k. less_s (d i) (d k) \<or> d i = NaN" by simp_all
  have "k < length (Normals mp)" using kn wf cap by (simp add: wf_MultiPlane_def n_def)
  then have g: "Gradient vm mp point = Inr (Normals mp ! k)"
    using loop by (simp add: Gradient_def)
  have c2: "\<forall>i<n. \<not> greater_s (d i) (d k)" using mx by (simp add: greater_s_def)
  have c3: "(\<forall>i<n. d i \<noteq> NaN) \<longrightarrow> (\<forall>i<n. le_s (d i) (d k))"
  proof (intro impI allI)
    fix i assume nn: "\<forall>i<n. d i \<noteq> NaN" and i: "i < n"
    have "d k \<noteq> NaN" "d i \<noteq> NaN" using nn kn i by blast+
    then show "le_s (d i) (d k)" using mx i not_less_s_iff by blast
  qed
  from kn g c2 c3 low have
    "k < n \<and> Gradient vm mp point = Inr (Normals mp ! k)
      \<and> (\<forall>i<n. \<not> greater_s (d i) (d k))
      \<and> ((\<forall>i<n. d i \<noteq> NaN) \<longrightarrow> (\<forall>i<n. le_s (d i) (d k)))
      \<and> (\<forall>i<k. less_s (d i) (d k) \<or> d i = NaN)"
    by (intro conjI)
  then show ?thesis unfolding n_def d_def by (rule exI)
qed

lemma tie_planes_fields:
  "Points tie_planes = [zero_vec, zero_vec, zero_vec, zero_vec, zero_vec, zero_vec]"
  "Normals tie_planes = [Vec3f (Fin 1) (Fin 0) (Fin 0), Vec3f (Fin 0) (Fin 1) (Fin 0), zero_vec,
     zero_vec, zero_vec, zero_vec]"
  "m_num_planes tie_planes = 2"
  by (simp_all add: tie_planes_def MultiPlane_init_def SetPlanes_def Modified_def
      MultiPlane_default_def zero_vec_def)

theorem Gradient_is_argmax_witness:
  "wf_MultiPlane tie_planes \<and> 1 \<le> m_num_planes tie_planes \<and> m_num_planes tie_planes \<le> 6
   \<and> plane_d exact_math tie_planes (Vec3f (Fin 1) (Fin 1) (Fin 0)) 0 = Fin 1
   \<and> plane_d exact_math tie_planes (Vec3f (Fin 1) (Fin 1) (Fin 0)) 1 = Fin 1
   \<and> Gradient exact_math tie_planes (Vec3f (Fin 1) (Fin 1) (Fin 0)) = Inr (Vec3f (Fin 1) (Fin 0) (Fin 0))"
proof -
  let ?p = "Vec3f (Fin 1) (Fin 1) (Fin 0)"
  have h1: "wf_MultiPlane tie_planes" unfolding tie_planes_def by (rule wf_MultiPlane_init)
  have h2: "1 \<le> m_num_planes tie_planes" by (simp add: tie_planes_fields)
  have h3: "m_num_planes tie_planes \<le> 6" by (simp add: tie_planes_fields)
  have d0: "plane_d exact_math tie_planes ?p 0 = Fin 1"
    by (simp add: plane_d_def tie_planes_fields exact_math_def zero_vec_def)
  have d1: "plane_d exact_math tie_planes ?p 1 = Fin 1"
    by (simp add: plane_d_def tie_planes_fields exact_math_def zero_vec_def)
  from Gradient_is_argmax [OF h1 h2 h3, of exact_math ?p]
  obtain k where k: "k < nat (m_num_planes tie_planes)"
    and g: "Gradient exact_math tie_planes ?p = Inr (Normals tie_planes ! k)"
    and low: "\<forall>i<k. less_s (plane_d exact_math tie_planes ?p i) (plane_d exact_math tie_planes ?p k)
        \<or> plane_d exact_math tie_planes ?p i = NaN"
    by blast
  have "k = 0"
  proof (rule ccontr)
    assume "k \<noteq> 0"
    then have "k = 1" using k by (simp add: tie_planes_fields)
    then have "less_s (plane_d exact_math tie_planes ?p 0) (plane_d exact_math tie_planes ?p 1)
        \<or> plane_d exact_math tie_planes ?p 0 = NaN" using low by simp
    then show False using d0 d1 by simp
  qed
  then have "Gradient exact_math tie_planes ?p = Inr (Vec3f (Fin 1) (Fin 0) (Fin 0))"
    using g by (simp add: tie_planes_fields)
  with h1 h2 h3 d0 d1 show ?thesis by simp
qed

lemma plane_d_cong:
  "same_active_planes a b \<Longrightarrow> i < nat (m_num_planes a) \<Longrightarrow> plane_d vm a point i = plane_d vm b point i"
  by (simp add: same_active_planes_def plane_d_def)

lemma Gradient_loop_cong:
  "same_active_planes a b \<Longrightarrow>
   nat (m_num_planes a) \<le> length (Points a) \<Longrightarrow> nat (m_num_planes a) \<le> length (Normals a) \<Longrightarrow>
   nat (m_num_planes a) \<le> length (Points b) \<Longrightarrow> nat (m_num_planes a) \<le> length (Normals b) \<Longrightarrow>
   Gradient_loop vm a point index maxVal maxValIdx = Gradient_loop vm b point index maxVal maxValIdx"
proof (induction vm a point index maxVal maxValIdx rule: Gradient_loop.induct)
  case (1 vm a point index maxVal maxValIdx)
  have nb: "m_num_planes b = m_num_planes a" using "1.prems"(1) by (simp add: same_active_planes_def)
  show ?case
  proof (cases "int index < m_num_planes a")
    case False
    then show ?thesis using nb
      by (subst Gradient_loop.simps, subst (2) Gradient_loop.simps) simp
  next
    case True
    then have lt: "index < nat (m_num_planes a)" by linarith
    then have inb: "index < length (Points a) \<and> index < length (Normals a)"
      and inb': "index < length (Points b) \<and> index < length (Normals b)"
      using "1.prems" by linarith+
    have eq: "Points b ! index = Points a ! index" "Normals b ! index = Normals a ! index"
      using "1.prems"(1) lt by (simp_all add: same_active_planes_def)
    let ?val = "Dot vm (Minus vm point (Points a ! index)) (Normals a ! index)"
    show ?thesis
    proof (cases "greater_s ?val maxVal")
      case g: True
      have "Gradient_loop vm a point index maxVal maxValIdx =
          Gradient_loop vm a point (index + 1) ?val index"
        using True inb g by (subst Gradient_loop.simps) (simp add: Let_def)
      also have "\<dots> = Gradient_loop vm b point (index + 1) ?val index"
        using "1.IH"(1) [OF True inb refl refl refl g "1.prems"] .
      also have "\<dots> = Gradient_loop vm b point index maxVal maxValIdx"
        using True inb' g nb eq by (subst (2) Gradient_loop.simps) (simp add: Let_def)
      finally show ?thesis .
    next
      case g: False
      have "Gradient_loop vm a point index maxVal maxValIdx =
          Gradient_loop vm a point (index + 1) maxVal maxValIdx"
        using True inb g by (subst Gradient_loop.simps) (simp add: Let_def)
      also have "\<dots> = Gradient_loop vm b point (index + 1) maxVal maxValIdx"
        using "1.IH"(2) [OF True inb refl refl refl g "1.prems"] .
      also have "\<dots> = Gradient_loop vm b point index maxVal maxValIdx"
        using True inb' g nb eq by (subst (2) Gradient_loop.simps) (simp add: Let_def)
      finally show ?thesis .
    qed
  qed
qed

text \<open>
  Claim C7. Slots beyond the active count are inert: for two surfaces whose arrays have
  their declared size, with the same active count \<open>N\<close> (at least 1 and at most that size)
  and the same points and normals in every slot \<open>i < N\<close>, whatever the slots from \<open>N\<close>
  on hold, \<open>Value\<close> returns the same result at every point and so does \<open>Gradient\<close>.
\<close>

theorem inactive_slots_inert:
  assumes wfa: "wf_MultiPlane a" and wfb: "wf_MultiPlane b"
    and one: "1 \<le> m_num_planes a" and cap: "m_num_planes a \<le> 6"
    and same: "same_active_planes a b"
  shows "Value vm a point = Value vm b point \<and> Gradient vm a point = Gradient vm b point"
proof -
  have nb: "m_num_planes b = m_num_planes a" using same by (simp add: same_active_planes_def)
  have len: "nat (m_num_planes a) \<le> length (Points a)" "nat (m_num_planes a) \<le> length (Normals a)"
    "nat (m_num_planes a) \<le> length (Points b)" "nat (m_num_planes a) \<le> length (Normals b)"
    using wfa wfb cap by (simp_all add: wf_MultiPlane_def)
  have meq: "map (plane_d vm a point) [0..<nat (m_num_planes a)] =
      map (plane_d vm b point) [0..<nat (m_num_planes a)]"
    using plane_d_cong [OF same] by simp
  have va: "Value vm a point = Inr (foldl vtkm_Max NegativeInfinity
      (map (plane_d vm a point) [0..<nat (m_num_planes a)]))"
    unfolding Value_def using len(1,2) by (rule Value_loop_foldl)
  have "Value vm b point = Inr (foldl vtkm_Max NegativeInfinity
      (map (plane_d vm b point) [0..<nat (m_num_planes b)]))"
    unfolding Value_def using len(3,4) unfolding nb [symmetric] by (rule Value_loop_foldl)
  then have v: "Value vm a point = Value vm b point"
    unfolding nb va meq by simp
  have g: "Gradient vm a point = Gradient vm b point"
  proof -
    from Gradient_result [OF wfa cap, of vm point]
    obtain k m where loop: "Gradient_loop vm a point 0 NegativeInfinity 0 = Inr k"
      and inv: "Gradient_inv (plane_d vm a point) (nat (m_num_planes a)) m k" by blast
    have "0 < nat (m_num_planes a)" using one by simp
    from Gradient_inv_final [OF inv this] have kn: "k < nat (m_num_planes a)" by simp
    have loopb: "Gradient_loop vm b point 0 NegativeInfinity 0 = Inr k"
      using Gradient_loop_cong [OF same len, of vm point 0 NegativeInfinity 0] loop by simp
    have "Normals a ! k = Normals b ! k" using same kn by (simp add: same_active_planes_def)
    moreover have "k < length (Normals a)" "k < length (Normals b)" using kn len by linarith+
    ultimately show ?thesis using loop loopb by (simp add: Gradient_def)
  qed
  from v g show ?thesis by (rule conjI)
qed

theorem inactive_slots_inert_witness:
  "wf_MultiPlane tie_planes \<and> wf_MultiPlane (tie_planes\<lparr>Normals := (Normals tie_planes)[2 := Vec3f (Fin 0) (Fin 0) (Fin 1)]\<rparr>)
   \<and> m_num_planes tie_planes \<le> 6
   \<and> same_active_planes tie_planes (tie_planes\<lparr>Normals := (Normals tie_planes)[2 := Vec3f (Fin 0) (Fin 0) (Fin 1)]\<rparr>)
   \<and> 1 \<le> m_num_planes tie_planes
   \<and> Normals tie_planes ! 2 \<noteq> Vec3f (Fin 0) (Fin 0) (Fin 1)
   \<and> Value exact_math tie_planes (Vec3f (Fin 1) (Fin 1) (Fin 5)) =
       Value exact_math (tie_planes\<lparr>Normals := (Normals tie_planes)[2 := Vec3f (Fin 0) (Fin 0) (Fin 1)]\<rparr>) (Vec3f (Fin 1) (Fin 1) (Fin 5))
   \<and> Gradient exact_math tie_planes (Vec3f (Fin 1) (Fin 1) (Fin 5)) =
       Gradient exact_math (tie_planes\<lparr>Normals := (Normals tie_planes)[2 := Vec3f (Fin 0) (Fin 0) (Fin 1)]\<rparr>) (Vec3f (Fin 1) (Fin 1) (Fin 5))"
proof -
  let ?b = "tie_planes\<lparr>Normals := (Normals tie_planes)[2 := Vec3f (Fin 0) (Fin 0) (Fin 1)]\<rparr>"
  have h1: "wf_MultiPlane tie_planes" unfolding tie_planes_def by (rule wf_MultiPlane_init)
  have h2: "wf_MultiPlane ?b" using h1 by (simp add: wf_MultiPlane_def)
  have h3: "m_num_planes tie_planes \<le> 6" by (simp add: tie_planes_fields)
  have "i < 2 \<Longrightarrow> (Normals tie_planes)[2 := v] ! i = Normals tie_planes ! i" for i v by simp
  then have h4: "same_active_planes tie_planes ?b"
    by (simp add: same_active_planes_def tie_planes_fields(3))
  have h5: "1 \<le> m_num_planes tie_planes" by (simp add: tie_planes_fields)
  have h6: "Normals tie_planes ! 2 \<noteq> Vec3f (Fin 0) (Fin 0) (Fin 1)"
    by (simp add: tie_planes_fields zero_vec_def)
  from inactive_slots_inert [OF h1 h2 h5 h3 h4, of exact_math "Vec3f (Fin 1) (Fin 1) (Fin 5)"]
  have "Value exact_math tie_planes (Vec3f (Fin 1) (Fin 1) (Fin 5)) =
      Value exact_math ?b (Vec3f (Fin 1) (Fin 1) (Fin 5))"
    and "Gradient exact_math tie_planes (Vec3f (Fin 1) (Fin 1) (Fin 5)) =
      Gradient exact_math ?b (Vec3f (Fin 1) (Fin 1) (Fin 5))" by simp_all
  with h1 h2 h3 h4 h5 h6 show ?thesis by simp
qed

section \<open>Setters of the surface and plane builders\<close>

lemma MultiPlane_init_fields:
  "Points (MultiPlane_init (p0, p1, p2) (n0, n1, n2) num) = [p0, p1, p2, zero_vec, zero_vec, zero_vec]"
  "Normals (MultiPlane_init (p0, p1, p2) (n0, n1, n2) num) = [n0, n1, n2, zero_vec, zero_vec, zero_vec]"
  "m_num_planes (MultiPlane_init (p0, p1, p2) (n0, n1, n2) num) = num"
  "ModifiedCount (MultiPlane_init (p0, p1, p2) (n0, n1, n2) num) = 1"
  by (simp_all add: MultiPlane_init_def SetPlanes_def Modified_def MultiPlane_default_def)

lemma Set2PlaneClip_func:
  "m_func (Set2PlaneClip vm (o1x, o1y, o1z) (n1x, n1y, n1z) (o2x, o2y, o2z) (n2x, n2y, n2z) c) =
     Handle_MultiPlane (MultiPlane_init
       (Vec3f (to_float vm o1x) (to_float vm o1y) (to_float vm o1z),
        Vec3f (to_float vm o2x) (to_float vm o2y) (to_float vm o2z),
        Vec3f (Fin 0) (Fin 0) (Fin 0))
       (Normalize vm (Vec3f (to_float vm n1x) (to_float vm n1y) (to_float vm n1z)),
        Normalize vm (Vec3f (to_float vm n2x) (to_float vm n2y) (to_float vm n2z)),
        Vec3f (Fin 0) (Fin 0) (Fin 0)) 2)"
  by (simp add: Set2PlaneClip_def Let_def)

lemma Set3PlaneClip_func:
  "m_func (Set3PlaneClip vm (o1x, o1y, o1z) (n1x, n1y, n1z) (o2x, o2y, o2z) (n2x, n2y, n2z)
       (o3x, o3y, o3z) (n3x, n3y, n3z) c) =
     Handle_MultiPlane (MultiPlane_init
       (Vec3f (to_float vm o1x) (to_float vm o1y) (to_float vm o1z),
        Vec3f (to_float vm o2x) (to_float vm o2y) (to_float vm o2z),
        Vec3f (to_float vm o3x) (to_float vm o3y) (to_float vm o3z))
       (Normalize vm (Vec3f (to_float vm n1x) (to_float vm n1y) (to_float vm n1z)),
        Normalize vm (Vec3f (to_float vm n2x) (to_float vm n2y) (to_float vm n2z)),
        Normalize vm (Vec3f (to_float vm n3x) (to_float vm n3y) (to_float vm n3z))) 3)"
  by (simp add: Set3PlaneClip_def Let_def)

text \<open>
  The surfaces the builders construct have arrays of the declared size and an active
  count of 2 or 3: they meet the hypotheses on the surface made above.
\<close>

lemma builders_make_wf_surfaces:
  "\<exists>mp. m_func (Set2PlaneClip vm origin1 normal1 origin2 normal2 c) = Handle_MultiPlane mp
     \<and> wf_MultiPlane mp \<and> m_num_planes mp = 2"
  "\<exists>mp. m_func (Set3PlaneClip vm origin1 normal1 origin2 normal2 origin3 normal3 c)
       = Handle_MultiPlane mp
     \<and> wf_MultiPlane mp \<and> m_num_planes mp = 3"
  by (cases origin1; cases normal1; cases origin2; cases normal2; cases origin3; cases normal3;
      simp add: Set2PlaneClip_func Set3PlaneClip_func wf_MultiPlane_init MultiPlane_init_fields)+

text \<open>
  Claim C4. For all origins and normals, \<^verbatim>\<open>Set2PlaneClip\<close> configures a surface whose
  points in slots 0 and 1 are the given origins converted to float and nothing else,
  whose normals in slots 0 and 1 are the given normals converted to float and passed
  through \<^verbatim>\<open>vtkm::Normalize\<close>, whose slot 2 holds the zero point and the zero normal, and
  whose active count is 2. \<^verbatim>\<open>Set3PlaneClip\<close> stores the three origins converted to
  float, the three normals converted and normalised, and the active count 3. The slots 3
  to 5 of the arrays stay zero.
\<close>

theorem plane_builders_configure:
  "(\<exists>mp. m_func (Set2PlaneClip vm (o1x, o1y, o1z) (n1x, n1y, n1z) (o2x, o2y, o2z) (n2x, n2y, n2z) c)
        = Handle_MultiPlane mp
      \<and> Points mp =
          [Vec3f (to_float vm o1x) (to_float vm o1y) (to_float vm o1z),
           Vec3f (to_float vm o2x) (to_float vm o2y) (to_float vm o2z),
           Vec3f (Fin 0) (Fin 0) (Fin 0), zero_vec, zero_vec, zero_vec]
      \<and> Normals mp =
          [Normalize vm (Vec3f (to_float vm n1x) (to_float vm n1y) (to_float vm n1z)),
           Normalize vm (Vec3f (to_float vm n2x) (to_float vm n2y) (to_float vm n2z)),
           Vec3f (Fin 0) (Fin 0) (Fin 0), zero_vec, zero_vec, zero_vec]
      \<and> m_num_planes mp = 2)
   \<and> (\<exists>mp. m_func (Set3PlaneClip vm (p1x, p1y, p1z) (m1x, m1y, m1z) (p2x, p2y, p2z) (m2x, m2y, m2z)
          (p3x, p3y, p3z) (m3x, m3y, m3z) c) = Handle_MultiPlane mp
      \<and> Points mp =
          [Vec3f (to_float vm p1x) (to_float vm p1y) (to_float vm p1z),
           Vec3f (to_float vm p2x) (to_float vm p2y) (to_float vm p2z),
           Vec3f (to_float vm p3x) (to_float vm p3y) (to_float vm p3z),
           zero_vec, zero_vec, zero_vec]
      \<and> Normals mp =
          [Normalize vm (Vec3f (to_float vm m1x) (to_float vm m1y) (to_float vm m1z)),
           Normalize vm (Vec3f (to_float vm m2x) (to_float vm m2y) (to_float vm m2z)),
           Normalize vm (Vec3f (to_float vm m3x) (to_float vm m3y) (to_float vm m3z)),
           zero_vec, zero_vec, zero_vec]
      \<and> m_num_planes mp = 3)"
  by (simp add: Set2PlaneClip_func Set3PlaneClip_func MultiPlane_init_fields)

text \<open>
  Claim C8, amended. After \<^verbatim>\<open>Set2PlaneClip\<close>, the getters of the configured surface
  return in slots 0 and 1 the given origins converted to float and the given normals
  converted to float and normalised, and in slot 2 the zero point and the zero normal.
\<close>

theorem Set2PlaneClip_read_back:
  "\<exists>mp. m_func (Set2PlaneClip vm (o1x, o1y, o1z) (n1x, n1y, n1z) (o2x, o2y, o2z) (n2x, n2y, n2z) c)
        = Handle_MultiPlane mp
     \<and> GetPlanes mp =
         ((Vec3f (to_float vm o1x) (to_float vm o1y) (to_float vm o1z),
           Vec3f (to_float vm o2x) (to_float vm o2y) (to_float vm o2z),
           Vec3f (Fin 0) (Fin 0) (Fin 0)),
          (Normalize vm (Vec3f (to_float vm n1x) (to_float vm n1y) (to_float vm n1z)),
           Normalize vm (Vec3f (to_float vm n2x) (to_float vm n2y) (to_float vm n2z)),
           Vec3f (Fin 0) (Fin 0) (Fin 0)))
     \<and> GetPoints mp ! 0 = Vec3f (to_float vm o1x) (to_float vm o1y) (to_float vm o1z)
     \<and> GetPoints mp ! 1 = Vec3f (to_float vm o2x) (to_float vm o2y) (to_float vm o2z)
     \<and> GetPoints mp ! 2 = Vec3f (Fin 0) (Fin 0) (Fin 0)
     \<and> GetNormals mp ! 0 = Normalize vm (Vec3f (to_float vm n1x) (to_float vm n1y) (to_float vm n1z))
     \<and> GetNormals mp ! 1 = Normalize vm (Vec3f (to_float vm n2x) (to_float vm n2y) (to_float vm n2z))
     \<and> GetNormals mp ! 2 = Vec3f (Fin 0) (Fin 0) (Fin 0)"
  by (simp add: Set2PlaneClip_func MultiPlane_init_fields GetPlanes_def GetPoints_def GetNormals_def)

text \<open>The instance of \<^verbatim>\<open>vtkm::Normalize\<close> gives a vector of length one for any finite vector but zero.\<close>

lemma exact_Normalize_unit_length:
  assumes "x * x + y * y + z * z \<noteq> 0"
  shows "\<exists>a b c. exact_Normalize (Vec3f (Fin x) (Fin y) (Fin z)) = Vec3f (Fin a) (Fin b) (Fin c)
    \<and> a * a + b * b + c * c = 1"
proof -
  define q where "q = x * x + y * y + z * z"
  have "0 \<le> q" by (simp add: q_def)
  moreover have "q \<noteq> 0" using assms by (simp add: q_def)
  ultimately have qpos: "0 < q" by linarith
  define s where "s = sqrt q"
  have ss: "s * s = q" using qpos by (simp add: s_def)
  have "(x / s) * (x / s) + (y / s) * (y / s) + (z / s) * (z / s) = q / (s * s)"
    by (simp add: q_def add_divide_distrib)
  also have "\<dots> = 1" using ss qpos by simp
  finally have one: "(x / s) * (x / s) + (y / s) * (y / s) + (z / s) * (z / s) = 1" .
  have "exact_Normalize (Vec3f (Fin x) (Fin y) (Fin z)) = Vec3f (Fin (x / s)) (Fin (y / s)) (Fin (z / s))"
    using assms by (simp add: s_def q_def)
  with one show ?thesis by blast
qed

lemma exact_Normalize_2: "exact_Normalize (Vec3f (Fin 2) (Fin 0) (Fin 0)) = Vec3f (Fin 1) (Fin 0) (Fin 0)"
proof -
  have "sqrt 4 = 2" using real_sqrt_abs [of 2] by simp
  then show ?thesis by simp
qed

lemma exact_Normalize_y: "exact_Normalize (Vec3f (Fin 0) (Fin 1) (Fin 0)) = Vec3f (Fin 0) (Fin 1) (Fin 0)"
  by simp

text \<open>
  Claim C8 as stated fails for a normal that is not of unit length: the normal (2, 0, 0)
  is read back as (1, 0, 0).
\<close>

theorem Set2PlaneClip_read_back_counterexample:
  "m_func (Set2PlaneClip exact_math (Fin 0, Fin 0, Fin 0) (Fin 2, Fin 0, Fin 0)
       (Fin 0, Fin 0, Fin 0) (Fin 0, Fin 1, Fin 0) (Clip_init ([] :: nat DataSet) ()))
     = Handle_MultiPlane (MultiPlane_init
         (Vec3f (Fin 0) (Fin 0) (Fin 0), Vec3f (Fin 0) (Fin 0) (Fin 0), Vec3f (Fin 0) (Fin 0) (Fin 0))
         (Vec3f (Fin 1) (Fin 0) (Fin 0), Vec3f (Fin 0) (Fin 1) (Fin 0), Vec3f (Fin 0) (Fin 0) (Fin 0)) 2)
   \<and> GetNormals (MultiPlane_init
         (Vec3f (Fin 0) (Fin 0) (Fin 0), Vec3f (Fin 0) (Fin 0) (Fin 0), Vec3f (Fin 0) (Fin 0) (Fin 0))
         (Vec3f (Fin 1) (Fin 0) (Fin 0), Vec3f (Fin 0) (Fin 1) (Fin 0), Vec3f (Fin 0) (Fin 0) (Fin 0)) 2) ! 0
       = Vec3f (Fin 1) (Fin 0) (Fin 0)
   \<and> Vec3f (Fin 1) (Fin 0) (Fin 0) \<noteq> Vec3f (Fin 2) (Fin 0) (Fin 0)"
  by (simp add: Set2PlaneClip_func exact_math_def exact_Normalize_2 exact_Normalize_y
      GetNormals_def MultiPlane_init_fields)

text \<open>
  Claim C9. Each setter of the surface returns it with the modification counter one
  higher: \<^verbatim>\<open>SetPlanes\<close> and \<^verbatim>\<open>SetNumPlanes\<close> always, and \<^verbatim>\<open>SetPlane\<close> whenever it
  returns, which it does for the indices 0, 1 and 2 (for any other index its assertion
  halts the program). The accessors \<^verbatim>\<open>GetPlanes\<close>, \<^verbatim>\<open>GetPoints\<close>, \<^verbatim>\<open>GetNormals\<close>,
  \<^verbatim>\<open>Value\<close> and \<^verbatim>\<open>Gradient\<close> are const member functions: they return values and no
  surface, so the surface and its counter stay as they were.
\<close>

theorem setters_mark_modified:
  "ModifiedCount (SetPlanes points normals mp) = ModifiedCount mp + 1
   \<and> (SetPlane idx point normal mp = Inl AssertFailure
       \<or> (\<exists>mp'. SetPlane idx point normal mp = Inr mp' \<and> ModifiedCount mp' = ModifiedCount mp + 1))
   \<and> (0 \<le> idx \<and> idx < 3 \<longrightarrow>
        (\<exists>mp'. SetPlane idx point normal mp = Inr mp' \<and> ModifiedCount mp' = ModifiedCount mp + 1))
   \<and> (\<exists>mp'. SetNumPlanes num mp = Inr mp' \<and> ModifiedCount mp' = ModifiedCount mp + 1)"
  by (cases points; cases normals)
     (simp add: SetPlanes_def SetPlane_def SetNumPlanes_def Modified_def)

theorem setters_mark_modified_witness:
  "(0::int) \<le> 1 \<and> (1::int) < 3
   \<and> SetPlane 1 (Vec3f (Fin 1) (Fin 2) (Fin 3)) (Vec3f (Fin 0) (Fin 0) (Fin 1)) MultiPlane_default
       = Inr (MultiPlane_default
           \<lparr>Points := (Points MultiPlane_default)[1 := Vec3f (Fin 1) (Fin 2) (Fin 3)],
            Normals := (Normals MultiPlane_default)[1 := Vec3f (Fin 0) (Fin 0) (Fin 1)],
            ModifiedCount := 1\<rparr>)
   \<and> ModifiedCount MultiPlane_default = 0"
  using setters_mark_modified [of "(zero_vec, zero_vec, zero_vec)" "(zero_vec, zero_vec, zero_vec)"
      MultiPlane_default 1 "Vec3f (Fin 1) (Fin 2) (Fin 3)" "Vec3f (Fin 0) (Fin 0) (Fin 1)" 3]
  by (simp add: SetPlane_def Modified_def MultiPlane_default_def)

text \<open>
  Claim C10. \<^verbatim>\<open>SetInvertClip\<close> changes the invert flag and nothing else of the filter,
  the configured surface included; each of \<^verbatim>\<open>SetBoxClip\<close>, \<^verbatim>\<open>SetSphereClip\<close>,
  \<^verbatim>\<open>SetPlaneClip\<close>, \<^verbatim>\<open>Set2PlaneClip\<close> and \<^verbatim>\<open>Set3PlaneClip\<close> changes the configured
  surface and nothing else, the invert flag included.
\<close>

theorem setters_frame:
  "m_func (SetInvertClip invert c) = m_func c
   \<and> m_invert (SetInvertClip invert c) = invert
   \<and> SetInvertClip invert c = c\<lparr>m_invert := m_invert (SetInvertClip invert c)\<rparr>
   \<and> m_invert (SetBoxClip vm clipping_bounds c) = m_invert c
   \<and> SetBoxClip vm clipping_bounds c = c\<lparr>m_func := m_func (SetBoxClip vm clipping_bounds c)\<rparr>
   \<and> m_invert (SetSphereClip vm center radius c) = m_invert c
   \<and> SetSphereClip vm center radius c = c\<lparr>m_func := m_func (SetSphereClip vm center radius c)\<rparr>
   \<and> m_invert (SetPlaneClip vm origin normal c) = m_invert c
   \<and> SetPlaneClip vm origin normal c = c\<lparr>m_func := m_func (SetPlaneClip vm origin normal c)\<rparr>
   \<and> m_invert (Set2PlaneClip vm origin1 normal1 origin2 normal2 c) = m_invert c
   \<and> Set2PlaneClip vm origin1 normal1 origin2 normal2 c =
        c\<lparr>m_func := m_func (Set2PlaneClip vm origin1 normal1 origin2 normal2 c)\<rparr>
   \<and> m_invert (Set3PlaneClip vm origin1 normal1 origin2 normal2 origin3 normal3 c) = m_invert c
   \<and> Set3PlaneClip vm origin1 normal1 origin2 normal2 origin3 normal3 c =
        c\<lparr>m_func := m_func (Set3PlaneClip vm origin1 normal1 origin2 normal2 origin3 normal3 c)\<rparr>"
  by (cases center; cases origin; cases normal; cases origin1; cases normal1; cases origin2;
      cases normal2; cases origin3; cases normal3)
     (simp add: SetInvertClip_def SetBoxClip_def SetSphereClip_def SetPlaneClip_def
      Set2PlaneClip_def Set3PlaneClip_def Let_def)

text \<open>
  Claim C5, amended. No plane count and no normal is checked: \<^verbatim>\<open>SetNumPlanes\<close> returns
  with any count stored as the active count, the constructor stores any count, and
  \<^verbatim>\<open>Set2PlaneClip\<close> hands a zero normal to \<^verbatim>\<open>vtkm::Normalize\<close> and stores what it
  returns. The one assertion of the surface is that of \<^verbatim>\<open>SetPlane\<close>, on its slot index:
  it halts exactly when the index is not 0, 1 or 2.
\<close>

theorem plane_count_unchecked:
  "(\<exists>mp'. SetNumPlanes num mp = Inr mp' \<and> m_num_planes mp' = num)
   \<and> m_num_planes (MultiPlane_init points normals num) = num
   \<and> (SetPlane idx point normal mp = Inl AssertFailure) = (\<not> (0 \<le> idx \<and> idx < 3))
   \<and> (\<exists>mp'. m_func (Set2PlaneClip vm origin1 (Fin 0, Fin 0, Fin 0) origin2 normal2 c)
          = Handle_MultiPlane mp'
        \<and> Normals mp' ! 0 =
            Normalize vm (Vec3f (to_float vm (Fin 0)) (to_float vm (Fin 0)) (to_float vm (Fin 0))))"
  by (cases points; cases normals; cases origin1; cases origin2; cases normal2)
     (simp add: SetNumPlanes_def Modified_def MultiPlane_init_fields SetPlane_def
      Set2PlaneClip_func)

text \<open>
  Claim C5 as stated fails: \<^verbatim>\<open>SetNumPlanes(7)\<close> returns with the count 7 stored, the
  constructor accepts the count 0, and \<^verbatim>\<open>Set2PlaneClip\<close> with a zero first normal
  returns with a NaN normal stored in slot 0.
\<close>

theorem plane_count_unchecked_counterexample:
  "SetNumPlanes 7 MultiPlane_default =
     Inr (MultiPlane_default\<lparr>m_num_planes := 7, ModifiedCount := 1\<rparr>)
   \<and> SetNumPlanes 7 MultiPlane_default \<noteq> Inl AssertFailure
   \<and> m_num_planes (MultiPlane_init (zero_vec, zero_vec, zero_vec) (zero_vec, zero_vec, zero_vec) 0) = 0
   \<and> m_func (Set2PlaneClip exact_math (Fin 0, Fin 0, Fin 0) (Fin 0, Fin 0, Fin 0)
        (Fin 0, Fin 0, Fin 0) (Fin 0, Fin 1, Fin 0) (Clip_init ([] :: nat DataSet) ()))
      = Handle_MultiPlane (MultiPlane_init
         (Vec3f (Fin 0) (Fin 0) (Fin 0), Vec3f (Fin 0) (Fin 0) (Fin 0), Vec3f (Fin 0) (Fin 0) (Fin 0))
         (Vec3f NaN NaN NaN, Vec3f (Fin 0) (Fin 1) (Fin 0), Vec3f (Fin 0) (Fin 0) (Fin 0)) 2)"
  by (simp add: SetNumPlanes_def Modified_def MultiPlane_default_def MultiPlane_init_fields
      Set2PlaneClip_func exact_math_def exact_Normalize_y)

section \<open>DoExecute\<close>

declare DoExecute_loop.simps [simp del]

lemma world_after_Nil: "world_after ex f invert fs [] w = w"
  by (simp add: world_after_def)

lemma world_after_Cons:
  "world_after ex f invert fs ((d, did) # xs) w =
     world_after ex f invert fs xs (snd (clip_Run ex d f invert fs w))"
  by (simp add: world_after_def)

lemma clip_call_0: "clip_call ex f invert fs ((d, did) # xs) w 0 = clip_Run ex d f invert fs w"
  by (simp add: clip_call_def world_after_Nil)

lemma clip_call_Suc:
  "clip_call ex f invert fs ((d, did) # xs) w (Suc i) =
     clip_call ex f invert fs xs (snd (clip_Run ex d f invert fs w)) i"
  by (simp add: clip_call_def world_after_Cons)

lemma world_after_take_Suc:
  "k < length doms \<Longrightarrow>
   world_after ex f invert fs (take (Suc k) doms) w = snd (clip_call ex f invert fs doms w k)"
  by (simp add: take_Suc_conv_app_nth world_after_def clip_call_def case_prod_beta)

lemma clip_domains_ok:
  "\<forall>i<length doms. \<exists>m. fst (clip_call ex f invert fs doms w i) = Inr m \<Longrightarrow>
   \<exists>ds. clip_domains ex f invert fs doms w = (Inr ds, world_after ex f invert fs doms w)
     \<and> length ds = length doms
     \<and> (\<forall>i<length doms. fst (clip_call ex f invert fs doms w i) = Inr (fst (ds ! i))
          \<and> snd (ds ! i) = snd (doms ! i))"
proof (induction doms arbitrary: w)
  case Nil
  then show ?case by (simp add: world_after_Nil)
next
  case (Cons x xs)
  obtain d did where x: "x = (d, did)" by (cases x)
  define w1 where "w1 = snd (clip_Run ex d f invert fs w)"
  from Cons.prems have "\<exists>m. fst (clip_call ex f invert fs (x # xs) w 0) = Inr m" by simp
  then obtain m0 where "fst (clip_Run ex d f invert fs w) = Inr m0"
    unfolding x clip_call_0 by blast
  then have run0: "clip_Run ex d f invert fs w = (Inr m0, w1)"
    by (simp add: w1_def prod_eq_iff)
  have "\<exists>m. fst (clip_call ex f invert fs xs w1 i) = Inr m" if "i < length xs" for i
  proof -
    have "Suc i < length (x # xs)" using that by simp
    with Cons.prems have "\<exists>m. fst (clip_call ex f invert fs (x # xs) w (Suc i)) = Inr m" by blast
    then show ?thesis unfolding x clip_call_Suc w1_def .
  qed
  then have "\<forall>i<length xs. \<exists>m. fst (clip_call ex f invert fs xs w1 i) = Inr m" by blast
  from Cons.IH [OF this] obtain ds
    where rest: "clip_domains ex f invert fs xs w1 = (Inr ds, world_after ex f invert fs xs w1)"
      and len: "length ds = length xs"
      and each: "\<forall>i<length xs. fst (clip_call ex f invert fs xs w1 i) = Inr (fst (ds ! i))
          \<and> snd (ds ! i) = snd (xs ! i)"
    by blast
  let ?ds = "(m0, did) # ds"
  have a: "clip_domains ex f invert fs (x # xs) w = (Inr ?ds, world_after ex f invert fs (x # xs) w)"
    unfolding x by (simp add: run0 rest world_after_Cons w1_def [symmetric])
  have b: "length ?ds = length (x # xs)" using len by simp
  have c: "fst (clip_call ex f invert fs (x # xs) w i) = Inr (fst (?ds ! i))
      \<and> snd (?ds ! i) = snd ((x # xs) ! i)" if "i < length (x # xs)" for i
  proof (cases i)
    case 0
    then show ?thesis unfolding x by (simp add: clip_call_0 run0)
  next
    case (Suc j)
    then have "j < length xs" using that by simp
    with each have "fst (clip_call ex f invert fs xs w1 j) = Inr (fst (ds ! j))
        \<and> snd (ds ! j) = snd (xs ! j)" by blast
    then show ?thesis unfolding x Suc clip_call_Suc w1_def by simp
  qed
  from a b c show ?case by blast
qed

lemma clip_domains_fail:
  "k < length doms \<Longrightarrow> fst (clip_call ex f invert fs doms w k) = Inl e \<Longrightarrow>
   \<forall>i<k. \<exists>m. fst (clip_call ex f invert fs doms w i) = Inr m \<Longrightarrow>
   clip_domains ex f invert fs doms w = (Inl e, world_after ex f invert fs (take (Suc k) doms) w)"
proof (induction doms arbitrary: w k)
  case Nil
  then show ?case by simp
next
  case (Cons x xs)
  obtain d did where x: "x = (d, did)" by (cases x)
  define w1 where "w1 = snd (clip_Run ex d f invert fs w)"
  show ?case
  proof (cases k)
    case 0
    then have "fst (clip_Run ex d f invert fs w) = Inl e"
      using Cons.prems(2) unfolding x by (simp add: clip_call_0)
    then have run0: "clip_Run ex d f invert fs w = (Inl e, w1)" by (simp add: w1_def prod_eq_iff)
    show ?thesis unfolding x 0 by (simp add: run0 world_after_Cons world_after_Nil)
  next
    case (Suc j)
    have "\<exists>m. fst (clip_call ex f invert fs (x # xs) w 0) = Inr m"
      using Cons.prems(3) Suc by blast
    then obtain m0 where "fst (clip_Run ex d f invert fs w) = Inr m0"
      unfolding x clip_call_0 by blast
    then have run0: "clip_Run ex d f invert fs w = (Inr m0, w1)"
      by (simp add: w1_def prod_eq_iff)
    have j: "j < length xs" using Cons.prems(1) Suc by simp
    have fail: "fst (clip_call ex f invert fs xs w1 j) = Inl e"
      using Cons.prems(2) unfolding x Suc clip_call_Suc w1_def .
    have "\<exists>m. fst (clip_call ex f invert fs xs w1 i) = Inr m" if "i < j" for i
    proof -
      have "Suc i < k" using that Suc by simp
      with Cons.prems(3) have "\<exists>m. fst (clip_call ex f invert fs (x # xs) w (Suc i)) = Inr m"
        by blast
      then show ?thesis unfolding x clip_call_Suc w1_def .
    qed
    then have "\<forall>i<j. \<exists>m. fst (clip_call ex f invert fs xs w1 i) = Inr m" by blast
    from Cons.IH [OF j fail this]
    have "clip_domains ex f invert fs xs w1 = (Inl e, world_after ex f invert fs (take (Suc j) xs) w1)" .
    then show ?thesis unfolding x Suc
      by (simp add: run0 world_after_Cons w1_def [symmetric])
  qed
qed

lemma DoExecute_loop_clip_domains:
  "0 \<le> i \<Longrightarrow> num_domains = int (length (m_input c)) \<Longrightarrow>
   DoExecute_loop ex c i num_domains data_set w =
     (case clip_domains ex (m_func c) (m_invert c) (m_field_selection c)
             (drop (nat i) (m_input c)) w of
        (Inl e, w') \<Rightarrow> (Inl e, w')
      | (Inr ds, w') \<Rightarrow> (Inr (data_set @ ds), w'))"
proof (induction ex c i num_domains data_set w rule: DoExecute_loop.induct)
  case (1 ex c i num_domains data_set w)
  show ?case
  proof (cases "i < num_domains")
    case False
    then have "drop (nat i) (m_input c) = []" using "1.prems" by simp
    then show ?thesis using False by (subst DoExecute_loop.simps) simp
  next
    case True
    then have lt: "nat i < length (m_input c)" using "1.prems" by linarith
    obtain d did where nth: "m_input c ! nat i = (d, did)" by (cases "m_input c ! nat i")
    have get: "GetDomain (m_input c) i = Inr (d, did)"
      using True "1.prems" nth by (simp add: GetDomain_def)
    have dr: "drop (nat i) (m_input c) = (d, did) # drop (nat (i + 1)) (m_input c)"
      using lt nth "1.prems"(1) by (simp add: Cons_nth_drop_Suc [symmetric] nat_add_distrib)
    obtain r w1 where run: "clip_Run ex d (m_func c) (m_invert c) (m_field_selection c) w = (r, w1)"
      by (cases "clip_Run ex d (m_func c) (m_invert c) (m_field_selection c) w")
    show ?thesis
    proof (cases r)
      case (Inl e)
      have "DoExecute_loop ex c i num_domains data_set w = (Inl e, w1)"
        using True get run Inl
        by (subst DoExecute_loop.simps) (simp add: GetFieldSelection_def)
      then show ?thesis unfolding dr by (simp add: run Inl)
    next
      case (Inr dataset)
      have run': "clip_Run ex d (m_func c) (m_invert c) (GetFieldSelection c) w = (Inr dataset, w1)"
        using run Inr by (simp add: GetFieldSelection_def)
      have "DoExecute_loop ex c i num_domains data_set w =
          DoExecute_loop ex c (i + 1) num_domains (AddDomain data_set dataset did) w1"
        using True get run'
        by (subst DoExecute_loop.simps) simp
      also have "\<dots> = (case clip_domains ex (m_func c) (m_invert c) (m_field_selection c)
             (drop (nat (i + 1)) (m_input c)) w1 of
          (Inl e, w') \<Rightarrow> (Inl e, w')
        | (Inr ds, w') \<Rightarrow> (Inr (AddDomain data_set dataset did @ ds), w'))"
        using "1.IH" [OF True get refl run' [symmetric] refl] "1.prems" by simp
      finally show ?thesis unfolding dr
        by (simp add: run Inr AddDomain_def split: prod.splits sum.splits)
    qed
  qed
qed

lemma DoExecute_clip_domains:
  "DoExecute ex c w =
     (case clip_domains ex (m_func c) (m_invert c) (m_field_selection c) (m_input c) w of
        (Inl e, w') \<Rightarrow> (Some e, c, w')
      | (Inr ds, w') \<Rightarrow>
          (case cleaner ex ds w' of
             (Inl e, w'') \<Rightarrow> (Some e, c, w'')
           | (Inr out, w'') \<Rightarrow> (None, c\<lparr>m_output := Some out\<rparr>, w'')))"
  using DoExecute_loop_clip_domains [of 0 "int (length (m_input c))" c ex "[]" w]
  by (simp add: DoExecute_def GetNumberOfDomains_def split: prod.splits sum.splits)

text \<open>
  Claim C3. When the clip primitive succeeds on every domain, there is a collection \<open>ds\<close>
  with one entry for each domain of the input, in the input's order: entry \<open>i\<close> holds the
  mesh the primitive returned for domain \<open>i\<close> (invoked on that domain's mesh with the
  filter's surface, invert flag and field selection, after the domains before it) under
  the domain id of domain \<open>i\<close>. \<^verbatim>\<open>DoExecute\<close> hands \<open>ds\<close> to the cleanup stage once
  every domain has been clipped, and what the cleanup returns becomes the filter's output.
\<close>

theorem DoExecute_clips_every_domain:
  assumes ok: "\<forall>i<length (m_input c). \<exists>m. clip_result ex c w i = Inr m"
  shows "\<exists>ds. length ds = length (m_input c)
    \<and> (\<forall>i<length (m_input c).
          clip_result ex c w i = Inr (fst (ds ! i)) \<and> snd (ds ! i) = snd (m_input c ! i))
    \<and> DoExecute ex c w =
        (case cleaner ex ds (world_after_domains ex c w (length (m_input c))) of
           (Inl e, w'') \<Rightarrow> (Some e, c, w'')
         | (Inr out, w'') \<Rightarrow> (None, c\<lparr>m_output := Some out\<rparr>, w''))"
proof -
  let ?f = "m_func c" and ?inv = "m_invert c" and ?fs = "m_field_selection c"
  from ok have "\<forall>i<length (m_input c). \<exists>m. fst (clip_call ex ?f ?inv ?fs (m_input c) w i) = Inr m"
    by (simp add: clip_result_def)
  from clip_domains_ok [OF this] obtain ds
    where run: "clip_domains ex ?f ?inv ?fs (m_input c) w =
        (Inr ds, world_after ex ?f ?inv ?fs (m_input c) w)"
      and len: "length ds = length (m_input c)"
      and each: "\<forall>i<length (m_input c).
          fst (clip_call ex ?f ?inv ?fs (m_input c) w i) = Inr (fst (ds ! i))
          \<and> snd (ds ! i) = snd (m_input c ! i)"
    by blast
  have each': "\<forall>i<length (m_input c).
      clip_result ex c w i = Inr (fst (ds ! i)) \<and> snd (ds ! i) = snd (m_input c ! i)"
    using each by (simp add: clip_result_def)
  have exec: "DoExecute ex c w =
      (case cleaner ex ds (world_after_domains ex c w (length (m_input c))) of
         (Inl e, w'') \<Rightarrow> (Some e, c, w'')
       | (Inr out, w'') \<Rightarrow> (None, c\<lparr>m_output := Some out\<rparr>, w''))"
    by (simp add: DoExecute_clip_domains run world_after_domains_def)
  from len each' exec show ?thesis by blast
qed

lemma logging_fields:
  "clip_Run logging_collaborators d f invert fs w =
     (if d = 0 then Inl (Thrown ''clip'') else Inr (d + 100), w @ [d])"
  "cleaner logging_collaborators ds w = (Inr ds, w)"
  by (simp_all add: logging_collaborators_def)

lemma two_domain_filter_fields:
  "m_input two_domain_filter = [(10, 7), (20, 3)]"
  "m_invert two_domain_filter = True"
  "m_func two_domain_filter = Handle_empty"
  "m_output two_domain_filter = None"
  by (simp_all add: two_domain_filter_def SetInvertClip_def Clip_init_def)

lemma list2_eq: "length xs = 2 \<Longrightarrow> xs = [xs ! 0, xs ! 1]"
  by (cases xs; cases "tl xs") auto

theorem DoExecute_clips_every_domain_witness:
  "clip_result logging_collaborators two_domain_filter [] 0 = Inr 110
   \<and> clip_result logging_collaborators two_domain_filter [] 1 = Inr 120
   \<and> length (m_input two_domain_filter) = 2
   \<and> DoExecute logging_collaborators two_domain_filter [] =
       (None, two_domain_filter\<lparr>m_output := Some [(110, 7), (120, 3)]\<rparr>, [10, 20])"
proof -
  let ?L = logging_collaborators and ?c = two_domain_filter
  have r0: "clip_result ?L ?c [] 0 = Inr 110"
    by (simp add: clip_result_def clip_call_def world_after_def two_domain_filter_fields logging_fields)
  have r1: "clip_result ?L ?c [] 1 = Inr 120"
    by (simp add: clip_result_def clip_call_def world_after_def two_domain_filter_fields logging_fields)
  have n: "length (m_input ?c) = 2" by (simp add: two_domain_filter_fields)
  have w2: "world_after_domains ?L ?c [] (length (m_input ?c)) = [10, 20]"
    by (simp add: world_after_domains_def world_after_def two_domain_filter_fields logging_fields)
  have ok: "\<forall>i<length (m_input ?c). \<exists>m. clip_result ?L ?c [] i = Inr m"
    using r0 r1 by (simp add: n less_Suc_eq numeral_2_eq_2)
  from DoExecute_clips_every_domain [OF ok] obtain ds
    where len: "length ds = length (m_input ?c)"
      and each: "\<forall>i<length (m_input ?c).
          clip_result ?L ?c [] i = Inr (fst (ds ! i)) \<and> snd (ds ! i) = snd (m_input ?c ! i)"
      and exec: "DoExecute ?L ?c [] =
        (case cleaner ?L ds (world_after_domains ?L ?c [] (length (m_input ?c))) of
           (Inl e, w'') \<Rightarrow> (Some e, ?c, w'')
         | (Inr out, w'') \<Rightarrow> (None, ?c\<lparr>m_output := Some out\<rparr>, w''))"
    by blast
  have "ds ! 0 = (110, 7)" "ds ! 1 = (120, 3)"
    using each r0 r1 by (simp_all add: n two_domain_filter_fields prod_eq_iff)
  then have "ds = [(110, 7), (120, 3)]" using list2_eq [of ds] len n by simp
  then have "DoExecute ?L ?c [] = (None, ?c\<lparr>m_output := Some [(110, 7), (120, 3)]\<rparr>, [10, 20])"
    using exec by (simp add: w2 logging_fields)
  with r0 r1 n show ?thesis by simp
qed

text \<open>
  Claim C6. When the clip primitive throws \<open>e\<close> for domain \<open>k\<close>, having succeeded on the
  domains before it, \<^verbatim>\<open>DoExecute\<close> is left by \<open>e\<close> with the filter as it was, its
  output included, and with the outside as the primitive left it after one invocation on
  each of the domains 0 to \<open>k\<close>: no domain is clipped twice, no later domain is clipped, and
  the cleanup stage is not run.
\<close>

theorem DoExecute_clip_failure_aborts:
  assumes k: "k < length (m_input c)"
    and fail: "clip_result ex c w k = Inl e"
    and before: "\<forall>i<k. \<exists>m. clip_result ex c w i = Inr m"
  shows "DoExecute ex c w = (Some e, c, world_after_domains ex c w (Suc k))
    \<and> m_output (fst (snd (DoExecute ex c w))) = m_output c"
proof -
  let ?f = "m_func c" and ?inv = "m_invert c" and ?fs = "m_field_selection c"
  have "clip_domains ex ?f ?inv ?fs (m_input c) w =
      (Inl e, world_after ex ?f ?inv ?fs (take (Suc k) (m_input c)) w)"
    using k fail before by (intro clip_domains_fail) (simp_all add: clip_result_def)
  then have "DoExecute ex c w = (Some e, c, world_after_domains ex c w (Suc k))"
    by (simp add: DoExecute_clip_domains world_after_domains_def)
  then show ?thesis by simp
qed

lemma failing_domain_filter_fields:
  "m_input failing_domain_filter = [(10, 7), (0, 3), (30, 5)]"
  "m_invert failing_domain_filter = False"
  "m_func failing_domain_filter = Handle_empty"
  "m_output failing_domain_filter = None"
  by (simp_all add: failing_domain_filter_def Clip_init_def)

theorem DoExecute_clip_failure_aborts_witness:
  "(1::nat) < length (m_input failing_domain_filter)
   \<and> clip_result logging_collaborators failing_domain_filter [] 0 = Inr 110
   \<and> clip_result logging_collaborators failing_domain_filter [] 1 = Inl (Thrown ''clip'')
   \<and> DoExecute logging_collaborators failing_domain_filter [] =
       (Some (Thrown ''clip''), failing_domain_filter, [10, 0])
   \<and> m_output (fst (snd (DoExecute logging_collaborators failing_domain_filter []))) = None"
proof -
  let ?L = logging_collaborators and ?c = failing_domain_filter
  have k: "(1::nat) < length (m_input ?c)" by (simp add: failing_domain_filter_fields)
  have r0: "clip_result ?L ?c [] 0 = Inr 110"
    by (simp add: clip_result_def clip_call_def world_after_def failing_domain_filter_fields
        logging_fields)
  have r1: "clip_result ?L ?c [] 1 = Inl (Thrown ''clip'')"
    by (simp add: clip_result_def clip_call_def world_after_def failing_domain_filter_fields
        logging_fields)
  have before: "\<forall>i<1. \<exists>m. clip_result ?L ?c [] i = Inr m" using r0 by simp
  have w: "world_after_domains ?L ?c [] (Suc 1) = [10, 0]"
    by (simp add: world_after_domains_def world_after_def failing_domain_filter_fields
        logging_fields)
  note th = DoExecute_clip_failure_aborts [OF k r1 before]
  have "DoExecute ?L ?c [] = (Some (Thrown ''clip''), ?c, [10, 0])"
    using th [THEN conjunct1] unfolding w .
  moreover have "m_output (fst (snd (DoExecute ?L ?c []))) = None"
    using th [THEN conjunct2] by (simp only: failing_domain_filter_fields)
  ultimately show ?thesis using k r0 r1 by simp
qed

end
